theory Spec2Isabelle
  imports Main
begin

section \<open>Values and errors\<close>

text \<open>
  A JavaScript value as the feedback generator sees it. The type parameter \<open>'n\<close> stands for
  JavaScript numbers; their conversion \<open>String(n)\<close> is passed to every function that needs it
  as the parameter \<open>numStr\<close>, because the double-precision rendering is not modelled.
  Strings are lists of characters (JavaScript's are sequences of UTF-16 code units).
  A sequence is a dense array. A mapping is the list of its enumerable string keys, each
  with its value, in the order in which \<^verbatim>\<open>for (key in obj)\<close> visits them.
  \<open>JOther d\<close> is a value of any other \<^verbatim>\<open>typeof\<close> (function, symbol, bigint), with
  \<open>d\<close> the text that \<open>String(value)\<close> gives for it.
\<close>

datatype 'n jsval =
    JNull
  | JUndefined
  | JStr string
  | JNum 'n
  | JBool bool
  | JArr "'n jsval list"
  | JObj "(string \<times> 'n jsval) list"
  | JOther string

text \<open>
  What the code throws. \<open>Error m\<close> is \<^verbatim>\<open>throw Error(m)\<close> with message \<open>m\<close>.
  \<open>LineIndexOutOfRange k\<close> is the error thrown by the line remapper, whose message is
  \<^verbatim>\<open>'Line number index out of range: ' + k\<close>; \<open>k\<close> is kept as the integer itself.
  \<open>TypeError\<close> is what the engine raises when a property of \<^verbatim>\<open>undefined\<close> is read.
\<close>

datatype error =
    Error string
  | LineIndexOutOfRange int
  | TypeError

section \<open>String helpers of the JavaScript library\<close>

text \<open>\<^verbatim>\<open>s.replace(/c/g, rep)\<close> for a single character \<open>c\<close>.\<close>

definition replaceAll :: "char \<Rightarrow> string \<Rightarrow> string \<Rightarrow> string" where
  "replaceAll c rep s = concat (map (\<lambda>x. if x = c then rep else [x]) s)"

text \<open>\<^verbatim>\<open>xs.join(sep)\<close> on an array of strings.\<close>

fun join :: "string \<Rightarrow> string list \<Rightarrow> string" where
  "join sep [] = []"
| "join sep [x] = x"
| "join sep (x # y # ys) = x @ sep @ join sep (y # ys)"

text \<open>\<^verbatim>\<open>s.startsWith(p)\<close>, and \<^verbatim>\<open>s.indexOf(p) === 0\<close>.\<close>

definition startsWith :: "string \<Rightarrow> string \<Rightarrow> bool" where
  "startsWith s p = (take (length p) s = p)"

text \<open>\<open>xs[i]\<close> on an array: \<open>None\<close> is \<^verbatim>\<open>undefined\<close>, the value of a read out of range.\<close>

definition at :: "'a list \<Rightarrow> nat \<Rightarrow> 'a option" where
  "at xs i = (if i < length xs then Some (xs ! i) else None)"

section \<open>The value renderer\<close>

definition tab :: char where "tab = CHR 0x09"
definition newline :: char where "newline = CHR 0x0A"
definition backslash :: char where "backslash = CHR 0x5C"
definition dquote :: char where "dquote = CHR 0x22"

text \<open>
  \<^verbatim>\<open>_jsToHumanReadable\<close>. The branches are in the order of the source. The array branch
  maps the function over the elements and the object branch visits the keys in order;
  an exception thrown for an element or a value leaves the whole call.
  A key is rendered by the function itself, as the string it is.
\<close>

fun jsToHumanReadable :: "('n \<Rightarrow> string) \<Rightarrow> 'n jsval \<Rightarrow> error + string"
  and humanReadableElements :: "('n \<Rightarrow> string) \<Rightarrow> 'n jsval list \<Rightarrow> error + string list"
  and humanReadableKeyValuePairs ::
    "('n \<Rightarrow> string) \<Rightarrow> (string \<times> 'n jsval) list \<Rightarrow> error + string list"
where
  "jsToHumanReadable numStr JNull = Inr ''None''"
| "jsToHumanReadable numStr JUndefined = Inr ''None''"
| "jsToHumanReadable numStr (JStr s) =
     Inr ([dquote] @
          replaceAll newline [backslash, CHR ''n''] (replaceAll tab [backslash, CHR ''t''] s) @
          [dquote])"
| "jsToHumanReadable numStr (JNum n) = Inr (numStr n)"
| "jsToHumanReadable numStr (JBool b) = Inr (if b then ''True'' else ''False'')"
| "jsToHumanReadable numStr (JArr xs) =
     (case humanReadableElements numStr xs of
        Inl e \<Rightarrow> Inl e
      | Inr rs \<Rightarrow> Inr (''['' @ join '', '' rs @ '']''))"
| "jsToHumanReadable numStr (JObj kvs) =
     (case humanReadableKeyValuePairs numStr kvs of
        Inl e \<Rightarrow> Inl e
      | Inr rs \<Rightarrow> Inr (''{'' @ join '', '' rs @ ''}''))"
| "jsToHumanReadable numStr (JOther d) =
     Inl (Error ''Could not make the following object human-readable: '')"
| "humanReadableElements numStr [] = Inr []"
| "humanReadableElements numStr (x # xs) =
     (case jsToHumanReadable numStr x of
        Inl e \<Rightarrow> Inl e
      | Inr r \<Rightarrow>
          (case humanReadableElements numStr xs of
             Inl e \<Rightarrow> Inl e
           | Inr rs \<Rightarrow> Inr (r # rs)))"
| "humanReadableKeyValuePairs numStr [] = Inr []"
| "humanReadableKeyValuePairs numStr ((k, v) # kvs) =
     (case jsToHumanReadable numStr (JStr k) of
        Inl e \<Rightarrow> Inl e
      | Inr rk \<Rightarrow>
          (case jsToHumanReadable numStr v of
             Inl e \<Rightarrow> Inl e
           | Inr rv \<Rightarrow>
               (case humanReadableKeyValuePairs numStr kvs of
                  Inl e \<Rightarrow> Inl e
                | Inr rs \<Rightarrow> Inr ((rk @ '': '' @ rv) # rs))))"

section \<open>Domain objects\<close>

text \<open>
  Modelled from the spec: the Feedback and FeedbackParagraph objects (FeedbackObjectFactory is
  not among the sources). A feedback is an ordered sequence of paragraphs, each of a kind,
  a completion flag and an optional hint index; it is created empty and the composing calls
  append to it. The content of a paragraph is whatever was passed to the appending call:
  \<open>None\<close> is \<^verbatim>\<open>undefined\<close>, which is what reading a hint out of range passes.
\<close>

datatype paragraphType = TextParagraph | CodeParagraph | SyntaxErrorParagraph

record feedbackParagraph =
  paragraphType :: paragraphType
  content :: "string option"

record feedback =
  paragraphs :: "feedbackParagraph list"
  answerIsCorrect :: bool
  hintIndex :: "nat option"

definition createFeedback :: "bool \<Rightarrow> feedback" where
  "createFeedback isAnswerCorrect =
     \<lparr>paragraphs = [], answerIsCorrect = isAnswerCorrect, hintIndex = None\<rparr>"

definition appendTextParagraph :: "string option \<Rightarrow> feedback \<Rightarrow> feedback" where
  "appendTextParagraph text f =
     f\<lparr>paragraphs := paragraphs f @ [\<lparr>paragraphType = TextParagraph, content = text\<rparr>]\<rparr>"

definition appendCodeParagraph :: "string option \<Rightarrow> feedback \<Rightarrow> feedback" where
  "appendCodeParagraph code f =
     f\<lparr>paragraphs := paragraphs f @ [\<lparr>paragraphType = CodeParagraph, content = code\<rparr>]\<rparr>"

definition setHintIndex :: "nat \<Rightarrow> feedback \<Rightarrow> feedback" where
  "setHintIndex i f = f\<lparr>hintIndex := Some i\<rparr>"

text \<open>
  Modelled from the spec: the tests, the tasks, the evaluation result and the snapshot, whose
  factories are not among the sources. The fields are the values that the getters used by the
  feedback generator return. A test result that the code reads as a truth value is a boolean.
\<close>

record buggyOutputTest =
  buggyFunctionName :: string
  messages :: "string list"

record 'n correctnessTest =
  input :: "'n jsval"
  allowedOutputs :: "'n jsval list"

record performanceTest =
  expectedPerformance :: string

record 'n task =
  buggyOutputTests :: "buggyOutputTest list"
  correctnessTests :: "'n correctnessTest list"
  performanceTests :: "performanceTest list"
  outputFunctionNameWithoutClass :: "string option"

record 'n codeEvalResult =
  preprocessedCode :: string
  errorString :: "string option"
  errorInput :: "'n jsval"
  buggyOutputTestResults :: "bool list list"
  correctnessTestResults :: "'n jsval list list"
  performanceTestResults :: "string list list"

record 'n snapshot =
  snapshotCodeEvalResult :: "'n codeEvalResult option"
  snapshotFeedback :: feedback

text \<open>
  Modelled from the spec: \<^verbatim>\<open>CorrectnessTest.matchesOutput\<close> and
  \<^verbatim>\<open>CorrectnessTest.getAnyAllowedOutput\<close> (CorrectnessTestObjectFactory is not among the
  sources). The allowed outputs have set semantics, any match counts as a pass; a match is
  equality of values. The representative shown is the first allowed output.
\<close>

definition matchesOutput :: "'n correctnessTest \<Rightarrow> 'n jsval \<Rightarrow> bool" where
  "matchesOutput t output = (output \<in> set (allowedOutputs t))"

definition getAnyAllowedOutput :: "'n correctnessTest \<Rightarrow> 'n jsval" where
  "getAnyAllowedOutput t = (case allowedOutputs t of [] \<Rightarrow> JUndefined | x # _ \<Rightarrow> x)"

text \<open>The truth value of \<^verbatim>\<open>if (s)\<close> for a string or \<^verbatim>\<open>null\<close>: the empty string is falsy.\<close>

definition truthy :: "string option \<Rightarrow> bool" where
  "truthy s = (case s of None \<Rightarrow> False | Some x \<Rightarrow> x \<noteq> [])"

section \<open>Feedback for a failing buggy-output test\<close>

text \<open>
  \<^verbatim>\<open>_getBuggyOutputTestFeedback\<close>. The most recent snapshot of the transcript is the
  parameter \<open>lastSnapshot\<close>. \<^verbatim>\<open>previousMessages[0].getContent()\<close> raises when the
  previous feedback has no paragraph. The comparison with \<^verbatim>\<open>buggyMessages.length - 1\<close> is
  made on integers, since the length may be 0.
\<close>

definition getBuggyOutputTestFeedback ::
  "'n snapshot option \<Rightarrow> buggyOutputTest \<Rightarrow> 'n codeEvalResult \<Rightarrow> error + feedback"
where
  "getBuggyOutputTestFeedback lastSnapshot failingTest codeEvalResult =
     (let buggyMessages = messages failingTest;
          selected =
            (case lastSnapshot of
               None \<Rightarrow> Inr 0
             | Some snap \<Rightarrow>
                 (case snapshotCodeEvalResult snap of
                    None \<Rightarrow> Inr 0
                  | Some previousResult \<Rightarrow>
                      (case hintIndex (snapshotFeedback snap) of
                         None \<Rightarrow> Inr 0
                       | Some previousHintIndex \<Rightarrow>
                           (case paragraphs (snapshotFeedback snap) of
                              [] \<Rightarrow> Inl TypeError
                            | p # _ \<Rightarrow>
                                if content p = at buggyMessages previousHintIndex then
                                  if preprocessedCode previousResult = preprocessedCode codeEvalResult
                                     \<or> int previousHintIndex = int (length buggyMessages) - 1
                                  then Inr previousHintIndex
                                  else Inr (previousHintIndex + 1)
                                else Inr 0))))
      in case selected of
           Inl e \<Rightarrow> Inl e
         | Inr h \<Rightarrow>
             Inr (setHintIndex h (appendTextParagraph (at buggyMessages h) (createFeedback False))))"

section \<open>Feedback for a failing correctness or performance test\<close>

text \<open>\<^verbatim>\<open>_getCorrectnessTestFeedback\<close>. The three values are rendered in the order of the source.\<close>

definition getCorrectnessTestFeedback ::
  "('n \<Rightarrow> string) \<Rightarrow> string option \<Rightarrow> 'n correctnessTest \<Rightarrow> 'n jsval \<Rightarrow> error + feedback"
where
  "getCorrectnessTestFeedback numStr outputFunctionName correctnessTest observedOutput =
     (let allowedOutputExample = getAnyAllowedOutput correctnessTest;
          f0 = appendTextParagraph (Some ''Your code produced the following result:'')
                 (createFeedback False)
      in case jsToHumanReadable numStr (input correctnessTest) of
           Inl e \<Rightarrow> Inl e
         | Inr renderedInput \<Rightarrow>
             (case jsToHumanReadable numStr observedOutput of
                Inl e \<Rightarrow> Inl e
              | Inr renderedOutput \<Rightarrow>
                  (let f1 =
                     (if truthy outputFunctionName then
                        appendTextParagraph
                          (Some (''However, the expected output of '' @ the outputFunctionName @
                                 '' is:''))
                          (appendCodeParagraph
                             (Some (''Input: '' @ renderedInput @ [newline] @
                                    ''Output (after running '' @ the outputFunctionName @ ''): '' @
                                    renderedOutput))
                             f0)
                      else
                        appendTextParagraph (Some ''However, the expected output is:'')
                          (appendCodeParagraph
                             (Some (''Input: '' @ renderedInput @ [newline] @
                                    ''Output: '' @ renderedOutput))
                             f0))
                   in case jsToHumanReadable numStr allowedOutputExample of
                        Inl e \<Rightarrow> Inl e
                      | Inr renderedExample \<Rightarrow>
                          Inr (appendTextParagraph (Some ''Could you fix this?'')
                                 (appendCodeParagraph (Some renderedExample) f1)))))"

text \<open>\<^verbatim>\<open>_getPerformanceTestFeedback\<close>.\<close>

definition getPerformanceTestFeedback :: "string \<Rightarrow> feedback" where
  "getPerformanceTestFeedback expected =
     appendTextParagraph
       (Some (concat [''Your code is running more slowly than expected. Can you '',
                      ''reconfigure it such that it runs in '',
                      expected,
                      '' time?'']))
       (createFeedback False)"

section \<open>Feedback for execution errors\<close>

text \<open>
  Decimal digits. \<open>Number(d)\<close> on a string of decimal digits is the number they denote
  (rounded to a double from \<open>2^53\<close> on, far beyond the length of any array, so that the
  range test below is not affected), and \<open>String(n)\<close> on a non-negative integer below
  \<open>10^21\<close> is its decimal numeral; line numbers and line indexes are such integers.
\<close>

definition isDigit :: "char \<Rightarrow> bool" where
  "isDigit c = (48 \<le> (of_char c :: nat) \<and> (of_char c :: nat) \<le> 57)"

definition digitValue :: "char \<Rightarrow> nat" where
  "digitValue c = of_char c - 48"

definition toNumber :: "string \<Rightarrow> nat" where
  "toNumber ds = foldl (\<lambda>a c. 10 * a + digitValue c) 0 ds"

definition digitChar :: "nat \<Rightarrow> char" where
  "digitChar d = ''0123456789'' ! d"

fun numberToString :: "nat \<Rightarrow> string" where
  "numberToString n =
     (if n < 10 then [digitChar n] else numberToString (n div 10) @ [digitChar (n mod 10)])"

text \<open>
  The regular expression \<^verbatim>\<open>line ([0-9]+)$\<close> matched at the start of a string: the five
  characters of \<^verbatim>\<open>line \<close>, then one or more digits up to the end of the string.
\<close>

definition lineRefHere :: "string \<Rightarrow> bool" where
  "lineRefHere s = (take 5 s = ''line '' \<and> drop 5 s \<noteq> [] \<and> list_all isDigit (drop 5 s))"

text \<open>
  The leftmost match of the expression in a string, as \<^verbatim>\<open>replace\<close> looks for it: the text
  before the match and the digits captured by the group.
\<close>

fun findLineRef :: "string \<Rightarrow> (string \<times> string) option" where
  "findLineRef [] = None"
| "findLineRef (c # cs) =
     (if lineRefHere (c # cs) then Some ([], drop 5 (c # cs))
      else map_option (\<lambda>(before, digits). (c # before, digits)) (findLineRef cs))"

text \<open>
  The callback given to \<^verbatim>\<open>replace\<close> in \<^verbatim>\<open>_getRuntimeErrorFeedback\<close>. The line map holds,
  for each line of the preprocessed code, the index of the line of the student's code it
  comes from, or \<^verbatim>\<open>null\<close> (\<open>None\<close>) for a line of the test code.
\<close>

definition remapLine :: "nat option list \<Rightarrow> string \<Rightarrow> error + string" where
  "remapLine rawCodeLineIndexes humanReadableLineNumber =
     (let preprocessedCodeLineIndex = int (toNumber humanReadableLineNumber) - 1
      in if preprocessedCodeLineIndex < 0
            \<or> preprocessedCodeLineIndex \<ge> int (length rawCodeLineIndexes)
         then Inl (LineIndexOutOfRange preprocessedCodeLineIndex)
         else (case rawCodeLineIndexes ! nat preprocessedCodeLineIndex of
                 None \<Rightarrow> Inr ''a line in the test code''
               | Some k \<Rightarrow> Inr (''line '' @ numberToString (k + 1))))"

text \<open>
  \<^verbatim>\<open>errorString.replace(new RegExp('line ([0-9]+)$'), callback)\<close>: the match, which ends the
  string, is replaced by what the callback returns; a string with no match is unchanged.
\<close>

definition fixErrorString :: "nat option list \<Rightarrow> string \<Rightarrow> error + string" where
  "fixErrorString rawCodeLineIndexes s =
     (case findLineRef s of
        None \<Rightarrow> Inr s
      | Some (before, digits) \<Rightarrow>
          (case remapLine rawCodeLineIndexes digits of
             Inl e \<Rightarrow> Inl e
           | Inr replacement \<Rightarrow> Inr (before @ replacement)))"

text \<open>
  \<^verbatim>\<open>_getRuntimeErrorFeedback\<close>. Calling \<^verbatim>\<open>replace\<close> on an error string that is
  \<^verbatim>\<open>null\<close> raises.
\<close>

definition getRuntimeErrorFeedback ::
  "('n \<Rightarrow> string) \<Rightarrow> 'n codeEvalResult \<Rightarrow> nat option list \<Rightarrow> error + feedback"
where
  "getRuntimeErrorFeedback numStr codeEvalResult rawCodeLineIndexes =
     (case jsToHumanReadable numStr (errorInput codeEvalResult) of
        Inl e \<Rightarrow> Inl e
      | Inr renderedInput \<Rightarrow>
          (let inputClause = '' when evaluating the input '' @ renderedInput;
               f0 = appendTextParagraph
                      (Some (''Looks like your code had a runtime error'' @ inputClause @
                             ''. Here's the trace:''))
                      (createFeedback False)
           in case errorString codeEvalResult of
                None \<Rightarrow> Inl TypeError
              | Some s \<Rightarrow>
                  (case fixErrorString rawCodeLineIndexes s of
                     Inl e \<Rightarrow> Inl e
                   | Inr fixedErrorString \<Rightarrow>
                       Inr (appendCodeParagraph (Some fixedErrorString) f0))))"

text \<open>
  \<^verbatim>\<open>_getTimeoutErrorFeedback\<close>. The configured constant
  \<^verbatim>\<open>CODE_EXECUTION_TIMEOUT_SECONDS\<close> is a parameter, a number that \<^verbatim>\<open>join\<close> converts to
  a string.
\<close>

definition getTimeoutErrorFeedback :: "('n \<Rightarrow> string) \<Rightarrow> 'n \<Rightarrow> feedback" where
  "getTimeoutErrorFeedback numStr timeLimit =
     appendTextParagraph
       (Some (concat [''Your program's exceeded the time limit ('',
                      numStr timeLimit,
                      '' seconds) we've set. Can you try to make it run '',
                      ''more efficiently?'']))
       (createFeedback False)"

text \<open>\<^verbatim>\<open>_getInfiniteLoopFeedback\<close>.\<close>

definition getInfiniteLoopFeedback :: feedback where
  "getInfiniteLoopFeedback =
     appendTextParagraph
       (Some (join '' '' [''Looks like your code is hitting an infinite recursive loop.'',
                          ''Check to see that your recursive calls terminate.'']))
       (createFeedback False)"

section \<open>Selecting the feedback\<close>

text \<open>
  The three inner loops of \<^verbatim>\<open>_getFeedbackWithoutReinforcement\<close> for the task of index
  \<open>i\<close>, each started at \<open>j = 0\<close> on the task's tests; the list argument holds the tests from
  index \<open>j\<close> on. The result \<open>Inr None\<close> means that the loop ended without returning.
  Reading \<^verbatim>\<open>results[i][j]\<close> raises when \<open>results[i]\<close> is \<^verbatim>\<open>undefined\<close> and gives
  \<^verbatim>\<open>undefined\<close> when only \<open>j\<close> is out of range.
\<close>

fun buggyOutputLoop ::
  "'n snapshot option \<Rightarrow> 'n codeEvalResult \<Rightarrow> nat \<Rightarrow> nat \<Rightarrow> buggyOutputTest list
   \<Rightarrow> error + feedback option"
where
  "buggyOutputLoop lastSnapshot r i j [] = Inr None"
| "buggyOutputLoop lastSnapshot r i j (t # ts) =
     (case at (buggyOutputTestResults r) i of
        None \<Rightarrow> Inl TypeError
      | Some row \<Rightarrow>
          if at row j = Some True
          then map_sum id Some (getBuggyOutputTestFeedback lastSnapshot t r)
          else buggyOutputLoop lastSnapshot r i (j + 1) ts)"

fun correctnessLoop ::
  "('n \<Rightarrow> string) \<Rightarrow> 'n codeEvalResult \<Rightarrow> string option \<Rightarrow> nat \<Rightarrow> nat
   \<Rightarrow> 'n correctnessTest list \<Rightarrow> error + feedback option"
where
  "correctnessLoop numStr r outputFunctionName i j [] = Inr None"
| "correctnessLoop numStr r outputFunctionName i j (t # ts) =
     (case at (correctnessTestResults r) i of
        None \<Rightarrow> Inl TypeError
      | Some row \<Rightarrow>
          (let observedOutput = (case at row j of None \<Rightarrow> JUndefined | Some v \<Rightarrow> v)
           in if \<not> matchesOutput t observedOutput
              then map_sum id Some
                     (getCorrectnessTestFeedback numStr outputFunctionName t observedOutput)
              else correctnessLoop numStr r outputFunctionName i (j + 1) ts))"

fun performanceLoop ::
  "'n codeEvalResult \<Rightarrow> nat \<Rightarrow> nat \<Rightarrow> performanceTest list \<Rightarrow> error + feedback option"
where
  "performanceLoop r i j [] = Inr None"
| "performanceLoop r i j (t # ts) =
     (case at (performanceTestResults r) i of
        None \<Rightarrow> Inl TypeError
      | Some row \<Rightarrow>
          (let observedPerformance = at row j
           in if Some (expectedPerformance t) \<noteq> observedPerformance
              then Inr (Some (getPerformanceTestFeedback (expectedPerformance t)))
              else performanceLoop r i (j + 1) ts))"

text \<open>
  The outer loop over the tasks, from the task of index \<open>i\<close> on, and the completion feedback
  built when it ends.
\<close>

fun taskLoop ::
  "('n \<Rightarrow> string) \<Rightarrow> 'n snapshot option \<Rightarrow> 'n codeEvalResult \<Rightarrow> nat \<Rightarrow> 'n task list
   \<Rightarrow> error + feedback"
where
  "taskLoop numStr lastSnapshot r i [] =
     Inr (appendTextParagraph
            (Some (concat [''You've completed all the tasks for this question! Click the '',
                           [dquote] @ ''Next'' @ [dquote] @
                           '' button to move on to the next question.'']))
            (createFeedback True))"
| "taskLoop numStr lastSnapshot r i (t # ts) =
     (case buggyOutputLoop lastSnapshot r i 0 (buggyOutputTests t) of
        Inl e \<Rightarrow> Inl e
      | Inr (Some f) \<Rightarrow> Inr f
      | Inr None \<Rightarrow>
          (case correctnessLoop numStr r (outputFunctionNameWithoutClass t) i 0
                  (correctnessTests t) of
             Inl e \<Rightarrow> Inl e
           | Inr (Some f) \<Rightarrow> Inr f
           | Inr None \<Rightarrow>
               (case performanceLoop r i 0 (performanceTests t) of
                  Inl e \<Rightarrow> Inl e
                | Inr (Some f) \<Rightarrow> Inr f
                | Inr None \<Rightarrow> taskLoop numStr lastSnapshot r (i + 1) ts)))"

text \<open>
  \<^verbatim>\<open>_getFeedbackWithoutReinforcement\<close>. The first loop of the source only copies the tests
  of each task into three arrays indexed like the tasks.
\<close>

definition getFeedbackWithoutReinforcement ::
  "('n \<Rightarrow> string) \<Rightarrow> 'n \<Rightarrow> 'n snapshot option \<Rightarrow> 'n task list \<Rightarrow> 'n codeEvalResult
   \<Rightarrow> nat option list \<Rightarrow> error + feedback"
where
  "getFeedbackWithoutReinforcement numStr timeLimit lastSnapshot tasks codeEvalResult
       rawCodeLineIndexes =
     (if truthy (errorString codeEvalResult) then
        if startsWith (the (errorString codeEvalResult)) ''TimeLimitError''
        then Inr (getTimeoutErrorFeedback numStr timeLimit)
        else if startsWith (the (errorString codeEvalResult)) ''ExternalError: RangeError''
        then Inr getInfiniteLoopFeedback
        else getRuntimeErrorFeedback numStr codeEvalResult rawCodeLineIndexes
      else taskLoop numStr lastSnapshot codeEvalResult 0 tasks)"

section \<open>Error tracebacks\<close>

text \<open>
  \<^verbatim>\<open>ErrorTraceback\<close>: an error message and a list of traceback coordinates. The coordinate
  objects come from a factory that is not among the sources, so their type is the parameter
  \<open>'c\<close>, and their getter \<^verbatim>\<open>getLineNumber\<close> is a parameter of the functions that call it.
\<close>

record 'c errorTraceback =
  errorMessage :: string
  tracebackCoordinates :: "'c list"

text \<open>\<^verbatim>\<open>ErrorTraceback.prototype._getFirstTracebackLine\<close>: raises on an empty coordinate list.\<close>

definition getFirstTracebackLine :: "('c \<Rightarrow> 'n) \<Rightarrow> 'c errorTraceback \<Rightarrow> error + 'n" where
  "getFirstTracebackLine getLineNumber t =
     (case tracebackCoordinates t of [] \<Rightarrow> Inl TypeError | c # _ \<Rightarrow> Inr (getLineNumber c))"

text \<open>
  \<^verbatim>\<open>ErrorTraceback.prototype.getErrorString\<close>. The test \<^verbatim>\<open>indexOf('TimeLimitError') === 0\<close>
  holds when the message starts with that text. Appending the line number to a string
  converts it with \<open>String\<close>.
\<close>

definition getErrorString ::
  "('n \<Rightarrow> string) \<Rightarrow> ('c \<Rightarrow> 'n) \<Rightarrow> 'c errorTraceback \<Rightarrow> error + string"
where
  "getErrorString numStr getLineNumber t =
     (if startsWith (errorMessage t) ''TimeLimitError'' then Inr (errorMessage t)
      else (case getFirstTracebackLine getLineNumber t of
              Inl e \<Rightarrow> Inl e
            | Inr n \<Rightarrow> Inr (errorMessage t @ '' on line '' @ numStr n)))"

section \<open>The notation of the value renderer, as specified\<close>

text \<open>
  The rendering as the specification words it, to be compared with
  \<open>jsToHumanReadable\<close>: a tab becomes the two characters backslash and \<open>t\<close>, a newline
  backslash and \<open>n\<close>, every other character stays.
\<close>

definition escapeChar :: "char \<Rightarrow> string" where
  "escapeChar c =
     (if c = tab then [backslash, CHR ''t'']
      else if c = newline then [backslash, CHR ''n'']
      else [c])"

text \<open>A value built from absent values, strings, numbers, booleans, sequences and mappings.\<close>

fun recognized :: "'n jsval \<Rightarrow> bool" where
  "recognized (JArr xs) = list_all recognized xs"
| "recognized (JObj kvs) = list_all (\<lambda>(k, v). recognized v) kvs"
| "recognized (JOther d) = False"
| "recognized v = True"

text \<open>
  The specified text of a value. A key of a mapping is a string and is rendered as one.
  Nothing is specified for a value of another kind, and the last equation is never used
  for a recognized value.
\<close>

fun toDisplayString :: "('n \<Rightarrow> string) \<Rightarrow> 'n jsval \<Rightarrow> string" where
  "toDisplayString numStr JNull = ''None''"
| "toDisplayString numStr JUndefined = ''None''"
| "toDisplayString numStr (JStr s) = [dquote] @ concat (map escapeChar s) @ [dquote]"
| "toDisplayString numStr (JNum n) = numStr n"
| "toDisplayString numStr (JBool b) = (if b then ''True'' else ''False'')"
| "toDisplayString numStr (JArr xs) =
     ''['' @ join '', '' (map (toDisplayString numStr) xs) @ '']''"
| "toDisplayString numStr (JObj kvs) =
     ''{'' @ join '', ''
               (map (\<lambda>(k, v). toDisplayString numStr (JStr k) @ '': '' @ toDisplayString numStr v)
                  kvs) @ ''}''"
| "toDisplayString numStr (JOther d) = []"

section \<open>The scan order, as specified\<close>

text \<open>
  A test met by the scan, with the index \<open>i\<close> of its task and its index \<open>j\<close> among the
  tests of its kind in that task; a correctness test comes with its task, whose output
  function name its feedback uses.
\<close>

datatype 'n scannedTest =
    BuggyOutput nat nat buggyOutputTest
  | Correctness nat nat "'n task" "'n correctnessTest"
  | Performance nat nat performanceTest

text \<open>
  The tests of one task in the specified order: the buggy-output tests, then the
  correctness tests, then the performance tests.
\<close>

definition testsOfTask :: "nat \<Rightarrow> 'n task \<Rightarrow> 'n scannedTest list" where
  "testsOfTask i t =
     map (\<lambda>(j, b). BuggyOutput i j b) (enumerate 0 (buggyOutputTests t)) @
     map (\<lambda>(j, c). Correctness i j t c) (enumerate 0 (correctnessTests t)) @
     map (\<lambda>(j, p). Performance i j p) (enumerate 0 (performanceTests t))"

text \<open>The tasks in their original order, the first of them having index \<open>i\<close>.\<close>

fun scanOrder :: "nat \<Rightarrow> 'n task list \<Rightarrow> 'n scannedTest list" where
  "scanOrder i [] = []"
| "scanOrder i (t # ts) = testsOfTask i t @ scanOrder (i + 1) ts"

text \<open>The result recorded at position \<open>j\<close> of task \<open>i\<close>, if there is one.\<close>

definition resultAt :: "'a list list \<Rightarrow> nat \<Rightarrow> nat \<Rightarrow> 'a option" where
  "resultAt results i j = (case at results i of None \<Rightarrow> None | Some row \<Rightarrow> at row j)"

text \<open>The observed output of a correctness test; a missing one is \<^verbatim>\<open>undefined\<close>.\<close>

definition observedOutputAt :: "'n codeEvalResult \<Rightarrow> nat \<Rightarrow> nat \<Rightarrow> 'n jsval" where
  "observedOutputAt r i j =
     (case resultAt (correctnessTestResults r) i j of None \<Rightarrow> JUndefined | Some v \<Rightarrow> v)"

text \<open>
  When a test fails: a buggy-output test when its result flag is true, a correctness test
  when the observed output matches no allowed output, a performance test when the observed
  class differs from the expected class.
\<close>

fun fails :: "'n codeEvalResult \<Rightarrow> 'n scannedTest \<Rightarrow> bool" where
  "fails r (BuggyOutput i j b) = (resultAt (buggyOutputTestResults r) i j = Some True)"
| "fails r (Correctness i j t c) = (\<not> matchesOutput c (observedOutputAt r i j))"
| "fails r (Performance i j p) =
     (resultAt (performanceTestResults r) i j \<noteq> Some (expectedPerformance p))"

text \<open>The feedback for a failing test of each kind.\<close>

fun feedbackFor ::
  "('n \<Rightarrow> string) \<Rightarrow> 'n snapshot option \<Rightarrow> 'n codeEvalResult \<Rightarrow> 'n scannedTest
   \<Rightarrow> error + feedback"
where
  "feedbackFor numStr lastSnapshot r (BuggyOutput i j b) =
     getBuggyOutputTestFeedback lastSnapshot b r"
| "feedbackFor numStr lastSnapshot r (Correctness i j t c) =
     getCorrectnessTestFeedback numStr (outputFunctionNameWithoutClass t) c
       (observedOutputAt r i j)"
| "feedbackFor numStr lastSnapshot r (Performance i j p) =
     Inr (getPerformanceTestFeedback (expectedPerformance p))"

text \<open>The completion case: one paragraph of prose and the completion flag set.\<close>

definition completionFeedback :: feedback where
  "completionFeedback =
     \<lparr>paragraphs =
        [\<lparr>paragraphType = TextParagraph,
          content = Some (''You've completed all the tasks for this question! Click the '' @
                          [dquote] @ ''Next'' @ [dquote] @
                          '' button to move on to the next question.'')\<rparr>],
      answerIsCorrect = True, hintIndex = None\<rparr>"

text \<open>
  The result sequences are aligned with the tasks at least so far that each of them has a
  row for every task.
\<close>

definition resultsCoverTasks :: "'n task list \<Rightarrow> 'n codeEvalResult \<Rightarrow> bool" where
  "resultsCoverTasks tasks r =
     (length tasks \<le> length (buggyOutputTestResults r) \<and>
      length tasks \<le> length (correctnessTestResults r) \<and>
      length tasks \<le> length (performanceTestResults r))"

section \<open>The question Reverse Words\<close>

text \<open>
  The tests of the two tasks of \<^verbatim>\<open>src/assets/questions/reverseWords.js\<close>, on which the
  properties below are run. Neither task names an output function.
\<close>

definition forgetLastWordTest :: buggyOutputTest where
  "forgetLastWordTest =
     \<lparr>buggyFunctionName = ''AuxiliaryCode.forgetLastWord'',
      messages =
        [''Try running your code on 'river ocean' on paper. What's the result?'',
         ''Are you sure that you're reversing all the words?'',
         ''It looks like you're exiting the function without adding on the last reversed word.'']\<rparr>"

definition reverseStringTest :: buggyOutputTest where
  "reverseStringTest =
     \<lparr>buggyFunctionName = ''AuxiliaryCode.reverseString'',
      messages =
        [''Whoops! It looks like you're reversing the entire string, but you '' @
         ''should only be reversing each word in turn, not their ordering. '' @
         ''Please check the given example, and try again.'']\<rparr>"

definition reverseWordsTasks :: "nat task list" where
  "reverseWordsTasks =
     [\<lparr>buggyOutputTests = [forgetLastWordTest, reverseStringTest],
       correctnessTests =
         [\<lparr>input = JStr ''moo cow bark dog'', allowedOutputs = [JStr ''oom woc krab god'']\<rparr>,
          \<lparr>input = JStr ''racecar civic kayak mom noon level'',
            allowedOutputs = [JStr ''racecar civic kayak mom noon level'']\<rparr>,
          \<lparr>input = JStr ''I'', allowedOutputs = [JStr ''I'']\<rparr>,
          \<lparr>input = JStr [], allowedOutputs = [JStr []]\<rparr>,
          \<lparr>input = JStr ''ab'', allowedOutputs = [JStr ''ba'']\<rparr>],
       performanceTests = [],
       outputFunctionNameWithoutClass = None\<rparr>,
      \<lparr>buggyOutputTests = [],
       correctnessTests =
         [\<lparr>input = JStr (''   this  is '' @ [tab] @ '' a    whitespace  test''),
            allowedOutputs = [JStr (''   siht  si '' @ [tab] @ '' a    ecapsetihw  tset'')]\<rparr>,
          \<lparr>input = JStr ([tab] @ ''  ''), allowedOutputs = [JStr ([tab] @ ''  '')]\<rparr>,
          \<lparr>input = JStr ''123 456 789 '', allowedOutputs = [JStr ''321 654 987 '']\<rparr>,
          \<lparr>input = JStr ''test for dashes-and others'',
            allowedOutputs = [JStr ''tset rof dna-sehsad srehto'']\<rparr>],
       performanceTests = [\<lparr>expectedPerformance = ''linear''\<rparr>],
       outputFunctionNameWithoutClass = None\<rparr>]"

text \<open>The evaluation result of a submission that passes every test of the two tasks.\<close>

definition passingResult :: "string \<Rightarrow> nat codeEvalResult" where
  "passingResult code =
     \<lparr>preprocessedCode = code, errorString = None, errorInput = JNull,
      buggyOutputTestResults = [[False, False], []],
      correctnessTestResults =
        [[JStr ''oom woc krab god'', JStr ''racecar civic kayak mom noon level'', JStr ''I'',
          JStr [], JStr ''ba''],
         [JStr (''   siht  si '' @ [tab] @ '' a    ecapsetihw  tset''), JStr ([tab] @ ''  ''),
          JStr ''321 654 987 '', JStr ''tset rof dna-sehsad srehto'']],
      performanceTestResults = [[], [''linear'']]\<rparr>"

text \<open>A feedback that shows the hint of index \<open>k\<close> of the first buggy-output test.\<close>

definition hintFeedback :: "nat \<Rightarrow> feedback" where
  "hintFeedback k =
     \<lparr>paragraphs =
        [\<lparr>paragraphType = TextParagraph, content = at (messages forgetLastWordTest) k\<rparr>],
      answerIsCorrect = False, hintIndex = Some k\<rparr>"

text \<open>The evaluation result of a submission that shows the first bug and nothing else.\<close>

definition submission :: "string \<Rightarrow> nat codeEvalResult" where
  "submission code = (passingResult code)\<lparr>buggyOutputTestResults := [[True, False], []]\<rparr>"

definition snapshotOf :: "string \<Rightarrow> feedback \<Rightarrow> nat snapshot" where
  "snapshotOf code f =
     \<lparr>snapshotCodeEvalResult = Some (submission code), snapshotFeedback = f\<rparr>"

text \<open>
  A task in which no correctness test and no performance test fails: every failing test of
  the task, if there is one, is a buggy-output test.
\<close>

definition onlyBuggyOutputFailures :: "'n codeEvalResult \<Rightarrow> nat \<Rightarrow> 'n task \<Rightarrow> bool" where
  "onlyBuggyOutputFailures r i t =
     list_all (\<lambda>x. case x of BuggyOutput _ _ _ \<Rightarrow> True | _ \<Rightarrow> \<not> fails r x) (testsOfTask i t)"

text \<open>Whether a test met by the scan is a buggy-output test.\<close>

fun isBuggyOutput :: "'n scannedTest \<Rightarrow> bool" where
  "isBuggyOutput (BuggyOutput i j b) = True"
| "isBuggyOutput (Correctness i j t c) = False"
| "isBuggyOutput (Performance i j p) = False"

text \<open>A task in which no buggy-output test fails.\<close>

definition noBuggyOutputFailure :: "'n codeEvalResult \<Rightarrow> nat \<Rightarrow> 'n task \<Rightarrow> bool" where
  "noBuggyOutputFailure r i t =
     list_all (\<lambda>x. \<not> (isBuggyOutput x \<and> fails r x)) (testsOfTask i t)"

section \<open>Further evaluation results\<close>

text \<open>
  The evaluation result of a submission that leaves the numbers of the third test of the
  second task as they are, and runs in quadratic time.
\<close>

definition unreversedNumbersResult :: "nat codeEvalResult" where
  "unreversedNumbersResult =
     (passingResult ''def reverseWords(s): return slow(s)'')
       \<lparr>correctnessTestResults :=
          [[JStr ''oom woc krab god'', JStr ''racecar civic kayak mom noon level'', JStr ''I'',
            JStr [], JStr ''ba''],
           [JStr (''   siht  si '' @ [tab] @ '' a    ecapsetihw  tset''), JStr ([tab] @ ''  ''),
            JStr ''123 456 789 '', JStr ''tset rof dna-sehsad srehto'']],
        performanceTestResults := [[], [''quadratic'']]\<rparr>"

text \<open>
  Two tasks made of tests of the same question, each with a buggy-output test, a correctness
  test and a performance test, and the evaluation result of a submission that reverses the
  whole string: the buggy-output test of the second task detects it, and the first task's
  correctness test observes \<open>firstOutput\<close> and its performance test \<open>firstPerformance\<close>.
\<close>

definition laterBugTasks :: "nat task list" where
  "laterBugTasks =
     [\<lparr>buggyOutputTests = [forgetLastWordTest],
       correctnessTests =
         [\<lparr>input = JStr ''moo cow bark dog'', allowedOutputs = [JStr ''oom woc krab god'']\<rparr>],
       performanceTests = [\<lparr>expectedPerformance = ''linear''\<rparr>],
       outputFunctionNameWithoutClass = None\<rparr>,
      \<lparr>buggyOutputTests = [reverseStringTest],
       correctnessTests = [\<lparr>input = JStr ''ab'', allowedOutputs = [JStr ''ba'']\<rparr>],
       performanceTests = [\<lparr>expectedPerformance = ''linear''\<rparr>],
       outputFunctionNameWithoutClass = None\<rparr>]"

definition laterBugResult :: "string \<Rightarrow> string \<Rightarrow> nat codeEvalResult" where
  "laterBugResult firstOutput firstPerformance =
     \<lparr>preprocessedCode = ''def reverseWords(s): return s[::-1]'', errorString = None,
      errorInput = JNull,
      buggyOutputTestResults = [[False], [True]],
      correctnessTestResults = [[JStr firstOutput], [JStr ''ba'']],
      performanceTestResults = [[firstPerformance], [''linear'']]\<rparr>"

text \<open>
  The evaluation result of a run that stopped with the error string \<open>e\<close> on the input
  \<open>ab\<close>, and a line map of seven lines, of which the second to the fourth are the
  student's.
\<close>

definition erroringResult :: "string \<Rightarrow> nat codeEvalResult" where
  "erroringResult e =
     \<lparr>preprocessedCode = ''def reverseWords(s): return 1 / 0'', errorString = Some e,
      errorInput = JStr ''ab'', buggyOutputTestResults = [], correctnessTestResults = [],
      performanceTestResults = []\<rparr>"

definition exampleLineMap :: "nat option list" where
  "exampleLineMap = [None, Some 0, Some 1, Some 2, None, None, None]"

section \<open>Properties of the value renderer\<close>

declare numberToString.simps [simp del]

lemma replaceAll_escape:
  "replaceAll newline [backslash, CHR ''n''] (replaceAll tab [backslash, CHR ''t''] s) =
   concat (map escapeChar s)"
  by (induction s) (auto simp: replaceAll_def escapeChar_def tab_def newline_def backslash_def)

lemma render_recognized:
  "recognized v \<longrightarrow> jsToHumanReadable numStr v = Inr (toDisplayString numStr v)"
  "list_all recognized xs \<longrightarrow>
     humanReadableElements numStr xs = Inr (map (toDisplayString numStr) xs)"
  "list_all (\<lambda>(k, v). recognized v) kvs \<longrightarrow>
     humanReadableKeyValuePairs numStr kvs =
       Inr (map (\<lambda>(k, v). toDisplayString numStr (JStr k) @ '': '' @ toDisplayString numStr v)
              kvs)"
  by (induction numStr v and numStr xs and numStr kvs
        rule: jsToHumanReadable_humanReadableElements_humanReadableKeyValuePairs.induct)
     (simp_all add: replaceAll_escape)

text \<open>
  Claim C7. For every value built from absent values, strings, numbers, booleans, sequences
  and mappings, the renderer returns (and does not throw) exactly the specified text:
  \<open>None\<close> for an absent value; a string in double quotes with each tab as backslash-t and
  each newline as backslash-n; \<open>True\<close> or \<open>False\<close> for a boolean; the rendered elements of
  a sequence joined by a comma and a space between square brackets; the pairs
  \<open>key: value\<close> of a mapping, key and value rendered, joined likewise between braces, in
  the iteration order of the mapping.
\<close>

theorem jsToHumanReadable_renders_recognized:
  assumes "recognized v"
  shows "jsToHumanReadable numStr v = Inr (toDisplayString numStr v)"
  using assms render_recognized(1) by blast

theorem jsToHumanReadable_renders_recognized_witness:
  "recognized (JObj [(''a'', JArr [JNum (12::nat), JStr [CHR ''x'', tab, newline], JNull]),
                     (''b'', JBool True)]) \<and>
   jsToHumanReadable numberToString
     (JObj [(''a'', JArr [JNum (12::nat), JStr [CHR ''x'', tab, newline], JNull]),
            (''b'', JBool True)]) =
   Inr ([CHR ''{'', dquote, CHR ''a'', dquote] @ '': [12, '' @
        [dquote, CHR ''x'', backslash, CHR ''t'', backslash, CHR ''n'', dquote] @
        '', None], '' @ [dquote, CHR ''b'', dquote] @ '': True}'')"
proof -
  let ?v = "JObj [(''a'', JArr [JNum (12::nat), JStr [CHR ''x'', tab, newline], JNull]),
                  (''b'', JBool True)]"
  have r: "recognized ?v" by simp
  have "toDisplayString numberToString ?v =
          [CHR ''{'', dquote, CHR ''a'', dquote] @ '': [12, '' @
          [dquote, CHR ''x'', backslash, CHR ''t'', backslash, CHR ''n'', dquote] @
          '', None], '' @ [dquote, CHR ''b'', dquote] @ '': True}''"
    by (simp add: escapeChar_def tab_def newline_def numberToString.simps digitChar_def)
  with r jsToHumanReadable_renders_recognized [OF r, of numberToString] show ?thesis
    by simp
qed

text \<open>
  Claim C8. A value of an unrecognized kind makes the renderer throw, but the message of the
  error does not name the value: the value is passed to \<open>Error\<close> as a second argument
  instead of being appended to the message, so the message is the fixed text alone. Here
  the value is the function \<^verbatim>\<open>function f() {}\<close>.
\<close>

theorem jsToHumanReadable_unrecognized_message:
  "jsToHumanReadable numStr (JOther ''function f() {}'') =
     Inl (Error ''Could not make the following object human-readable: '')"
  by simp

section \<open>Properties of the hint selection\<close>

lemma hintIndex_selected:
  assumes "snapshotCodeEvalResult snap = Some previousResult"
    and "hintIndex (snapshotFeedback snap) = Some k"
    and "paragraphs (snapshotFeedback snap) = p # ps"
    and "content p = at (messages failingTest) k"
  shows "getBuggyOutputTestFeedback (Some snap) failingTest r =
           (let h = (if preprocessedCode previousResult = preprocessedCode r
                        \<or> int k = int (length (messages failingTest)) - 1
                     then k else k + 1)
            in Inr (setHintIndex h
                      (appendTextParagraph (at (messages failingTest) h) (createFeedback False))))"
  using assms by (simp add: getBuggyOutputTestFeedback_def Let_def)

lemma hintIndex_setHintIndex: "hintIndex (setHintIndex h f) = Some h"
  by (simp add: setHintIndex_def)

text \<open>
  Claim C4. Hint selection is idempotent under unchanged resubmission: when the previous
  snapshot holds an evaluation result and a hint-based feedback whose first paragraph equals
  the hint of the current buggy test at the previous hint index, and the previous
  preprocessed source is the current one, the feedback is produced and its hint index is the
  previous hint index.
\<close>

theorem hint_index_unchanged_resubmission:
  assumes "snapshotCodeEvalResult snap = Some previousResult"
    and "hintIndex (snapshotFeedback snap) = Some k"
    and "paragraphs (snapshotFeedback snap) = p # ps"
    and "content p = at (messages failingTest) k"
    and "preprocessedCode previousResult = preprocessedCode r"
  shows "\<exists>f. getBuggyOutputTestFeedback (Some snap) failingTest r = Inr f \<and>
             hintIndex f = Some k"
  using assms by (simp add: hintIndex_selected hintIndex_setHintIndex)

theorem hint_index_unchanged_resubmission_witness:
  "\<exists>f. getBuggyOutputTestFeedback
          (Some (snapshotOf ''def reverseWords(s): return s'' (hintFeedback 1)))
          forgetLastWordTest (submission ''def reverseWords(s): return s'') = Inr f \<and>
       hintIndex f = Some 1"
  by (rule hint_index_unchanged_resubmission
        [where previousResult = "submission ''def reverseWords(s): return s''"
           and p = "\<lparr>paragraphType = TextParagraph, content = at (messages forgetLastWordTest) 1\<rparr>"
           and ps = "[]"])
     (simp_all add: snapshotOf_def hintFeedback_def)

text \<open>
  Claim C5. When the preprocessed source differs from that of the previous snapshot and the
  previous hint-based feedback is for the same bug (its first paragraph equals the hint of
  the current buggy test at the previous hint index), the selected hint index is the
  previous one plus one, unless the previous one is the index of the last hint
  (\<open>length - 1\<close>), in which case it stays.
\<close>

theorem hint_index_advances:
  assumes "snapshotCodeEvalResult snap = Some previousResult"
    and "hintIndex (snapshotFeedback snap) = Some k"
    and "paragraphs (snapshotFeedback snap) = p # ps"
    and "content p = at (messages failingTest) k"
    and "preprocessedCode previousResult \<noteq> preprocessedCode r"
  shows "\<exists>f. getBuggyOutputTestFeedback (Some snap) failingTest r = Inr f \<and>
             hintIndex f =
               Some (if int k = int (length (messages failingTest)) - 1 then k else k + 1)"
  using assms by (simp add: hintIndex_selected hintIndex_setHintIndex)

theorem hint_index_advances_witness:
  "(\<exists>f. getBuggyOutputTestFeedback
          (Some (snapshotOf ''def reverseWords(s): return s'' (hintFeedback 1)))
          forgetLastWordTest (submission ''def reverseWords(s): return s[::-1]'') = Inr f \<and>
        hintIndex f = Some 2) \<and>
   (\<exists>f. getBuggyOutputTestFeedback
          (Some (snapshotOf ''def reverseWords(s): return s'' (hintFeedback 2)))
          forgetLastWordTest (submission ''def reverseWords(s): return s[::-1]'') = Inr f \<and>
        hintIndex f = Some 2)"
proof -
  let ?old = "''def reverseWords(s): return s''"
  let ?new = "''def reverseWords(s): return s[::-1]''"
  let ?p = "\<lambda>k. \<lparr>paragraphType = TextParagraph, content = at (messages forgetLastWordTest) k\<rparr>"
  have len: "length (messages forgetLastWordTest) = 3"
    by (simp add: forgetLastWordTest_def)
  have d: "preprocessedCode (submission ?old :: nat codeEvalResult)
             \<noteq> preprocessedCode (submission ?new :: nat codeEvalResult)"
    by (simp add: submission_def passingResult_def)
  have r: "snapshotCodeEvalResult (snapshotOf ?old (hintFeedback k)) = Some (submission ?old)"
    for k by (simp add: snapshotOf_def)
  have h: "hintIndex (snapshotFeedback (snapshotOf ?old (hintFeedback k) :: nat snapshot)) = Some k"
    for k by (simp add: snapshotOf_def hintFeedback_def)
  have p: "paragraphs (snapshotFeedback (snapshotOf ?old (hintFeedback k) :: nat snapshot)) = ?p k # []"
    for k by (simp add: snapshotOf_def hintFeedback_def)
  have c: "content (?p k) = at (messages forgetLastWordTest) k" for k
    by simp
  show ?thesis
    using hint_index_advances [OF r h p c d, of 1] hint_index_advances [OF r h p c d, of 2]
    by (simp add: len numeral_2_eq_2)
qed

text \<open>
  Claim C6. The selected hint index is 0 when there is no prior snapshot, when the previous
  feedback has no hint index, and when the first paragraph of the previous feedback differs
  from the hint of the current buggy test at the previous hint index.
\<close>

theorem hint_index_starts_at_zero:
  assumes "lastSnapshot = None
           \<or> (\<exists>snap. lastSnapshot = Some snap \<and> hintIndex (snapshotFeedback snap) = None)
           \<or> (\<exists>snap k p ps. lastSnapshot = Some snap \<and>
                 hintIndex (snapshotFeedback snap) = Some k \<and>
                 paragraphs (snapshotFeedback snap) = p # ps \<and>
                 content p \<noteq> at (messages failingTest) k)"
  shows "\<exists>f. getBuggyOutputTestFeedback lastSnapshot failingTest r = Inr f \<and>
             hintIndex f = Some 0"
  using assms
  by (auto simp: getBuggyOutputTestFeedback_def Let_def hintIndex_setHintIndex
           split: option.splits)


theorem hint_index_starts_at_zero_witness:
  "(\<exists>f. getBuggyOutputTestFeedback None forgetLastWordTest
          (submission ''def reverseWords(s): return s'') = Inr f \<and> hintIndex f = Some 0) \<and>
   (\<exists>f. getBuggyOutputTestFeedback
          (Some (snapshotOf ''def reverseWords(s): return s''
                   (getPerformanceTestFeedback ''linear'')))
          forgetLastWordTest (submission ''def reverseWords(s): return s[::-1]'') = Inr f \<and>
        hintIndex f = Some 0) \<and>
   (\<exists>f. getBuggyOutputTestFeedback
          (Some (snapshotOf ''def reverseWords(s): return s''
                   \<lparr>paragraphs =
                      [\<lparr>paragraphType = TextParagraph,
                        content = Some ''Whoops! It looks like you're reversing the entire string''\<rparr>],
                    answerIsCorrect = False, hintIndex = Some 0\<rparr>))
          forgetLastWordTest (submission ''def reverseWords(s): return s[::-1]'') = Inr f \<and>
        hintIndex f = Some 0)"
proof -
  let ?other = "\<lparr>paragraphs =
                   [\<lparr>paragraphType = TextParagraph,
                     content = Some ''Whoops! It looks like you're reversing the entire string''\<rparr>],
                 answerIsCorrect = False, hintIndex = Some 0\<rparr>"
  have a: "\<exists>f. getBuggyOutputTestFeedback None forgetLastWordTest
                 (submission ''def reverseWords(s): return s'') = Inr f \<and> hintIndex f = Some 0"
    by (rule hint_index_starts_at_zero) simp
  have "hintIndex (snapshotFeedback (snapshotOf ''def reverseWords(s): return s''
                     (getPerformanceTestFeedback ''linear'') :: nat snapshot)) = None"
    by (simp add: snapshotOf_def getPerformanceTestFeedback_def appendTextParagraph_def
          createFeedback_def)
  then have b: "\<exists>f. getBuggyOutputTestFeedback
                   (Some (snapshotOf ''def reverseWords(s): return s''
                            (getPerformanceTestFeedback ''linear'')))
                   forgetLastWordTest (submission ''def reverseWords(s): return s[::-1]'') = Inr f \<and>
                 hintIndex f = Some 0"
    by (intro hint_index_starts_at_zero) blast
  have "hintIndex (snapshotFeedback (snapshotOf ''def reverseWords(s): return s'' ?other :: nat snapshot))
          = Some 0 \<and>
        paragraphs (snapshotFeedback (snapshotOf ''def reverseWords(s): return s'' ?other :: nat snapshot))
          = [\<lparr>paragraphType = TextParagraph,
               content = Some ''Whoops! It looks like you're reversing the entire string''\<rparr>] \<and>
        Some ''Whoops! It looks like you're reversing the entire string''
          \<noteq> at (messages forgetLastWordTest) 0"
    by (simp add: snapshotOf_def forgetLastWordTest_def at_def)
  then have c: "\<exists>f. getBuggyOutputTestFeedback
                   (Some (snapshotOf ''def reverseWords(s): return s'' ?other))
                   forgetLastWordTest (submission ''def reverseWords(s): return s[::-1]'') = Inr f \<and>
                 hintIndex f = Some 0"
    by (intro hint_index_starts_at_zero) force
  from a b c show ?thesis by blast
qed

section \<open>Properties of the error string of a traceback\<close>

lemma startsWith_iff: "startsWith s p \<longleftrightarrow> (\<exists>rest. s = p @ rest)"
proof
  assume "startsWith s p"
  then have "s = p @ drop (length p) s"
    unfolding startsWith_def using append_take_drop_id [of "length p" s] by simp
  then show "\<exists>rest. s = p @ rest" ..
next
  assume "\<exists>rest. s = p @ rest"
  then show "startsWith s p" by (auto simp: startsWith_def)
qed

text \<open>
  Claim C10. For an error message that starts with \<open>TimeLimitError\<close>, \<open>getErrorString\<close>
  returns the message unchanged; for any other message and a non-empty coordinate list, it
  returns the message followed by \<open> on line N\<close>, with \<open>N\<close> the line number of the first
  traceback coordinate.
\<close>

theorem getErrorString_result:
  "(errorMessage t = ''TimeLimitError'' @ rest \<longrightarrow>
      getErrorString numStr getLineNumber t = Inr (errorMessage t)) \<and>
   ((\<forall>rest. errorMessage t \<noteq> ''TimeLimitError'' @ rest) \<and> tracebackCoordinates t = c # cs \<longrightarrow>
      getErrorString numStr getLineNumber t =
        Inr (errorMessage t @ '' on line '' @ numStr (getLineNumber c)))"
proof (intro conjI impI)
  assume "errorMessage t = ''TimeLimitError'' @ rest"
  then have "startsWith (errorMessage t) ''TimeLimitError''"
    unfolding startsWith_iff by blast
  then show "getErrorString numStr getLineNumber t = Inr (errorMessage t)"
    by (simp add: getErrorString_def)
next
  assume a: "(\<forall>rest. errorMessage t \<noteq> ''TimeLimitError'' @ rest) \<and> tracebackCoordinates t = c # cs"
  then have "\<not> startsWith (errorMessage t) ''TimeLimitError''"
    unfolding startsWith_iff by blast
  with a show "getErrorString numStr getLineNumber t =
        Inr (errorMessage t @ '' on line '' @ numStr (getLineNumber c))"
    by (simp add: getErrorString_def getFirstTracebackLine_def)
qed

theorem getErrorString_result_witness:
  "getErrorString numberToString fst
     \<lparr>errorMessage = ''TimeLimitError: Program exceeded run time limit.'',
      tracebackCoordinates = [] :: (nat \<times> nat) list\<rparr> =
     Inr ''TimeLimitError: Program exceeded run time limit.'' \<and>
   getErrorString numberToString fst
     \<lparr>errorMessage = ''ZeroDivisionError: integer division or modulo by zero'',
      tracebackCoordinates = [(5::nat, 1::nat), (12, 3)]\<rparr> =
     Inr ''ZeroDivisionError: integer division or modulo by zero on line 5''"
proof -
  let ?t1 = "\<lparr>errorMessage = ''TimeLimitError: Program exceeded run time limit.'',
              tracebackCoordinates = [] :: (nat \<times> nat) list\<rparr>"
  let ?t2 = "\<lparr>errorMessage = ''ZeroDivisionError: integer division or modulo by zero'',
              tracebackCoordinates = [(5::nat, 1::nat), (12, 3)]\<rparr>"
  have a: "errorMessage ?t1 = ''TimeLimitError'' @ '': Program exceeded run time limit.''"
    by simp
  have b: "(\<forall>rest. errorMessage ?t2 \<noteq> ''TimeLimitError'' @ rest) \<and>
           tracebackCoordinates ?t2 = (5, 1) # [(12, 3)]"
    by simp
  have n: "numberToString 5 = ''5''"
    by (simp add: numberToString.simps digitChar_def)
  from a getErrorString_result
         [where t = ?t1 and rest = "'': Program exceeded run time limit.''"
            and numStr = numberToString and getLineNumber = fst]
  have 1: "getErrorString numberToString fst ?t1 = Inr (errorMessage ?t1)"
    by blast
  from b getErrorString_result
         [where t = ?t2 and c = "(5, 1)" and cs = "[(12, 3)]"
            and numStr = numberToString and getLineNumber = fst]
  have 2: "getErrorString numberToString fst ?t2 =
             Inr (errorMessage ?t2 @ '' on line '' @ numberToString (fst (5::nat, 1::nat)))"
    by blast
  from 1 2 n show ?thesis by simp
qed

section \<open>Properties of the feedback for execution errors\<close>

lemma space_not_digit: "\<not> isDigit CHR '' ''"
  by (simp add: isDigit_def)

lemma lineRefHere_start:
  assumes "digits \<noteq> []" and "list_all isDigit digits"
  shows "lineRefHere (''line '' @ digits)"
  using assms by (simp add: lineRefHere_def)

lemma lineRefHere_not_before:
  "\<not> lineRefHere (c # before @ ''line '' @ digits)"
proof
  assume a: "lineRefHere (c # before @ ''line '' @ digits)"
  have "c # before @ ''line '' @ digits = (c # before @ ''line'') @ (CHR '' '' # digits)"
    by simp
  then have "drop 5 (c # before @ ''line '' @ digits) =
               drop 5 (c # before @ ''line'') @ (CHR '' '' # digits)"
    by (simp only: drop_append) simp
  with a have "isDigit CHR '' ''"
    by (simp add: lineRefHere_def)
  then show False by (simp add: space_not_digit)
qed

lemma findLineRef_trailing:
  assumes "digits \<noteq> []" and "list_all isDigit digits"
  shows "findLineRef (before @ ''line '' @ digits) = Some (before, digits)"
proof (induction before)
  case Nil
  have "findLineRef (CHR ''l'' # ''ine '' @ digits) = Some ([], drop 5 (CHR ''l'' # ''ine '' @ digits))"
    using lineRefHere_start [OF assms] by (simp only: findLineRef.simps) simp
  then show ?case by simp
next
  case (Cons c before)
  have "findLineRef (c # before @ ''line '' @ digits) =
          map_option (\<lambda>(b, d). (c # b, d)) (findLineRef (before @ ''line '' @ digits))"
    using lineRefHere_not_before [of c before digits] by (simp only: findLineRef.simps) simp
  with Cons.IH show ?case by simp
qed

text \<open>
  Claim C9. The runtime-error feedback remaps the trailing \<open>line N\<close> of the error string
  through the line map. For an error string that ends with \<open>line \<close> and the digits of
  \<open>N\<close>, and an error input that can be rendered: when \<open>N - 1\<close> is not an index of the line
  map, the function throws the out-of-range error and produces no feedback; otherwise the
  trace paragraph is the error string with \<open>line N\<close> replaced by
  \<open>a line in the test code\<close> when the entry at \<open>N - 1\<close> is the sentinel, and by
  \<open>line k + 1\<close> when the entry is the index \<open>k\<close>.
\<close>

theorem runtime_error_line_remapped:
  assumes "errorString r = Some (before @ ''line '' @ digits)"
    and "digits \<noteq> []"
    and "list_all isDigit digits"
    and "jsToHumanReadable numStr (errorInput r) = Inr renderedInput"
  shows "getRuntimeErrorFeedback numStr r rawCodeLineIndexes =
           (if toNumber digits = 0 \<or> toNumber digits > length rawCodeLineIndexes
            then Inl (LineIndexOutOfRange (int (toNumber digits) - 1))
            else Inr \<lparr>paragraphs =
                        [\<lparr>paragraphType = TextParagraph,
                          content = Some (''Looks like your code had a runtime error'' @
                                          '' when evaluating the input '' @ renderedInput @
                                          ''. Here's the trace:'')\<rparr>,
                         \<lparr>paragraphType = CodeParagraph,
                          content =
                            Some (before @
                                  (case rawCodeLineIndexes ! (toNumber digits - 1) of
                                     None \<Rightarrow> ''a line in the test code''
                                   | Some k \<Rightarrow> ''line '' @ numberToString (k + 1)))\<rparr>],
                      answerIsCorrect = False, hintIndex = None\<rparr>)"
proof -
  have f: "findLineRef (before @ ''line '' @ digits) = Some (before, digits)"
    using assms(2,3) by (rule findLineRef_trailing)
  have n: "nat (int (toNumber digits) - 1) = toNumber digits - 1"
    by simp
  show ?thesis
    using assms(1,4) f
    by (auto simp: getRuntimeErrorFeedback_def fixErrorString_def remapLine_def Let_def n
          appendTextParagraph_def appendCodeParagraph_def createFeedback_def
          split: option.splits)
qed

theorem runtime_error_line_remapped_witness:
  "getRuntimeErrorFeedback numberToString
     (erroringResult ''ZeroDivisionError: integer division or modulo by zero on line 7'')
     exampleLineMap =
     Inr \<lparr>paragraphs =
            [\<lparr>paragraphType = TextParagraph,
              content = Some (''Looks like your code had a runtime error when evaluating '' @
                              ''the input '' @ [dquote] @ ''ab'' @ [dquote] @
                              ''. Here's the trace:'')\<rparr>,
             \<lparr>paragraphType = CodeParagraph,
              content = Some (''ZeroDivisionError: integer division or modulo by zero on '' @
                              ''a line in the test code'')\<rparr>],
          answerIsCorrect = False, hintIndex = None\<rparr> \<and>
   getRuntimeErrorFeedback numberToString
     (erroringResult ''ZeroDivisionError: integer division or modulo by zero on line 3'')
     exampleLineMap =
     Inr \<lparr>paragraphs =
            [\<lparr>paragraphType = TextParagraph,
              content = Some (''Looks like your code had a runtime error when evaluating '' @
                              ''the input '' @ [dquote] @ ''ab'' @ [dquote] @
                              ''. Here's the trace:'')\<rparr>,
             \<lparr>paragraphType = CodeParagraph,
              content = Some (''ZeroDivisionError: integer division or modulo by zero on '' @
                              ''line 2'')\<rparr>],
          answerIsCorrect = False, hintIndex = None\<rparr> \<and>
   getRuntimeErrorFeedback numberToString
     (erroringResult ''ZeroDivisionError: integer division or modulo by zero on line 8'')
     exampleLineMap = Inl (LineIndexOutOfRange 7) \<and>
   getRuntimeErrorFeedback numberToString
     (erroringResult ''ZeroDivisionError: integer division or modulo by zero on line 0'')
     exampleLineMap = Inl (LineIndexOutOfRange (- 1))"
proof -
  let ?b = "''ZeroDivisionError: integer division or modulo by zero on ''"
  have e: "errorString (erroringResult (?b @ ''line '' @ d)) = Some (?b @ ''line '' @ d)" for d
    by (simp add: erroringResult_def)
  have i: "jsToHumanReadable numberToString (errorInput (erroringResult (?b @ ''line '' @ d))) =
             Inr ([dquote] @ ''ab'' @ [dquote])" for d
    by (simp add: erroringResult_def replaceAll_def tab_def newline_def)
  have d: "''7'' \<noteq> [] \<and> list_all isDigit ''7'' \<and> ''3'' \<noteq> [] \<and> list_all isDigit ''3'' \<and>
           ''8'' \<noteq> [] \<and> list_all isDigit ''8'' \<and> ''0'' \<noteq> [] \<and> list_all isDigit ''0''"
    by (simp add: isDigit_def)
  have n: "toNumber ''7'' = 7 \<and> toNumber ''3'' = 3 \<and> toNumber ''8'' = 8 \<and> toNumber ''0'' = 0"
    by (simp add: toNumber_def digitValue_def)
  have s: "numberToString (Suc (Suc 0)) = ''2''"
    by (simp add: numberToString.simps digitChar_def)
  have m: "length exampleLineMap = 7 \<and> exampleLineMap ! 6 = None \<and> exampleLineMap ! 2 = Some 1"
    by (simp add: exampleLineMap_def)
  note t = runtime_error_line_remapped [OF e _ _ i, of _ exampleLineMap]
  from d n s m t [of "''7''"] t [of "''3''"] t [of "''8''"] t [of "''0''"]
  show ?thesis by simp
qed

lemma timeout_feedback:
  "getTimeoutErrorFeedback numStr timeLimit =
     \<lparr>paragraphs =
        [\<lparr>paragraphType = TextParagraph,
          content = Some (''Your program's exceeded the time limit ('' @ numStr timeLimit @
                          '' seconds) we've set. Can you try to make it run more efficiently?'')\<rparr>],
      answerIsCorrect = False, hintIndex = None\<rparr>"
  by (simp add: getTimeoutErrorFeedback_def appendTextParagraph_def createFeedback_def)

lemma infiniteLoop_feedback:
  "getInfiniteLoopFeedback =
     \<lparr>paragraphs =
        [\<lparr>paragraphType = TextParagraph,
          content = Some (''Looks like your code is hitting an infinite recursive loop. '' @
                          ''Check to see that your recursive calls terminate.'')\<rparr>],
      answerIsCorrect = False, hintIndex = None\<rparr>"
  by (simp add: getInfiniteLoopFeedback_def appendTextParagraph_def createFeedback_def)

lemma runtimeError_feedback:
  assumes "errorString r = Some e"
  shows "getRuntimeErrorFeedback numStr r lineMap =
           (case jsToHumanReadable numStr (errorInput r) of
              Inl err \<Rightarrow> Inl err
            | Inr renderedInput \<Rightarrow>
                (case fixErrorString lineMap e of
                   Inl err \<Rightarrow> Inl err
                 | Inr trace \<Rightarrow>
                     Inr \<lparr>paragraphs =
                            [\<lparr>paragraphType = TextParagraph,
                              content = Some (''Looks like your code had a runtime error'' @
                                              '' when evaluating the input '' @ renderedInput @
                                              ''. Here's the trace:'')\<rparr>,
                             \<lparr>paragraphType = CodeParagraph, content = Some trace\<rparr>],
                          answerIsCorrect = False, hintIndex = None\<rparr>))"
  using assms
  by (simp add: getRuntimeErrorFeedback_def Let_def appendTextParagraph_def
        appendCodeParagraph_def createFeedback_def split: sum.split)

lemma error_feedback_selected:
  assumes "errorString r = Some e" and "e \<noteq> []"
  shows "getFeedbackWithoutReinforcement numStr timeLimit lastSnapshot tasks r lineMap =
           (if startsWith e ''TimeLimitError''
            then Inr (getTimeoutErrorFeedback numStr timeLimit)
            else if startsWith e ''ExternalError: RangeError''
            then Inr getInfiniteLoopFeedback
            else getRuntimeErrorFeedback numStr r lineMap)"
  using assms by (simp add: getFeedbackWithoutReinforcement_def truthy_def)

text \<open>
  Claim C2, as stated, fails in one point: the feedback does not depend on the error string
  alone, since the runtime-error feedback also shows the error input and remaps the line
  through the line map. What holds, for an evaluation result that carries an error string
  (a non-empty string, which is what the test \<^verbatim>\<open>if (errorString)\<close> of the code accepts):
  the case is selected by that string alone. A string that starts with \<open>TimeLimitError\<close>
  gives exactly the timeout paragraph with the configured time limit, and otherwise one
  that starts with \<open>ExternalError: RangeError\<close> gives exactly the infinite-recursion
  paragraph; in these two cases nothing but the error string is read. Any other string
  gives the runtime-error case: the error thrown by the rendering of the error input or by
  the line remapping, or else a prose paragraph with the rendered error input and a code
  paragraph with the remapped error string; here the feedback is the same whenever the error
  string, the error input and the line map are. The tasks, the snapshot, the preprocessed
  code and the test results are never read. The three feedbacks are pairwise different and
  have no paragraph in common.
\<close>

theorem error_string_selects_feedback:
  assumes "errorString r = Some e" and "e \<noteq> []" and "errorString r' = Some e"
  shows
    "let timeoutCase =
           \<lparr>paragraphs =
              [\<lparr>paragraphType = TextParagraph,
                content = Some (''Your program's exceeded the time limit ('' @ numStr timeLimit @
                                '' seconds) we've set. Can you try to make it run more '' @
                                ''efficiently?'')\<rparr>],
            answerIsCorrect = False, hintIndex = None\<rparr>;
         infiniteRecursionCase =
           \<lparr>paragraphs =
              [\<lparr>paragraphType = TextParagraph,
                content = Some (''Looks like your code is hitting an infinite recursive loop. '' @
                                ''Check to see that your recursive calls terminate.'')\<rparr>],
            answerIsCorrect = False, hintIndex = None\<rparr>;
         runtimeErrorCase =
           (\<lambda>renderedInput trace.
              \<lparr>paragraphs =
                 [\<lparr>paragraphType = TextParagraph,
                   content = Some (''Looks like your code had a runtime error when evaluating '' @
                                   ''the input '' @ renderedInput @ ''. Here's the trace:'')\<rparr>,
                  \<lparr>paragraphType = CodeParagraph, content = Some trace\<rparr>],
               answerIsCorrect = False, hintIndex = None\<rparr>)
     in getFeedbackWithoutReinforcement numStr timeLimit lastSnapshot tasks r lineMap =
          (if startsWith e ''TimeLimitError'' then Inr timeoutCase
           else if startsWith e ''ExternalError: RangeError'' then Inr infiniteRecursionCase
           else (case jsToHumanReadable numStr (errorInput r) of
                   Inl err \<Rightarrow> Inl err
                 | Inr renderedInput \<Rightarrow>
                     (case fixErrorString lineMap e of
                        Inl err \<Rightarrow> Inl err
                      | Inr trace \<Rightarrow> Inr (runtimeErrorCase renderedInput trace)))) \<and>
        (startsWith e ''TimeLimitError'' \<or> startsWith e ''ExternalError: RangeError'' \<longrightarrow>
           getFeedbackWithoutReinforcement numStr timeLimit lastSnapshot' tasks' r' lineMap' =
           getFeedbackWithoutReinforcement numStr timeLimit lastSnapshot tasks r lineMap) \<and>
        (errorInput r' = errorInput r \<longrightarrow>
           getFeedbackWithoutReinforcement numStr timeLimit lastSnapshot' tasks' r' lineMap =
           getFeedbackWithoutReinforcement numStr timeLimit lastSnapshot tasks r lineMap) \<and>
        timeoutCase \<noteq> infiniteRecursionCase \<and>
        timeoutCase \<noteq> runtimeErrorCase anyInput anyTrace \<and>
        infiniteRecursionCase \<noteq> runtimeErrorCase anyInput anyTrace \<and>
        set (paragraphs timeoutCase) \<inter> set (paragraphs infiniteRecursionCase) = {} \<and>
        set (paragraphs (runtimeErrorCase anyInput anyTrace)) \<inter>
          (set (paragraphs timeoutCase) \<union> set (paragraphs infiniteRecursionCase)) = {}"
proof -
  note sel = error_feedback_selected [OF assms(1,2)]
  note sel' = error_feedback_selected [OF assms(3,2)]
  have 1: "getFeedbackWithoutReinforcement numStr timeLimit lastSnapshot tasks r lineMap =
          (if startsWith e ''TimeLimitError''
           then Inr \<lparr>paragraphs =
              [\<lparr>paragraphType = TextParagraph,
                content = Some (''Your program's exceeded the time limit ('' @ numStr timeLimit @
                                '' seconds) we've set. Can you try to make it run more '' @
                                ''efficiently?'')\<rparr>],
            answerIsCorrect = False, hintIndex = None\<rparr>
           else if startsWith e ''ExternalError: RangeError''
           then Inr \<lparr>paragraphs =
              [\<lparr>paragraphType = TextParagraph,
                content = Some (''Looks like your code is hitting an infinite recursive loop. '' @
                                ''Check to see that your recursive calls terminate.'')\<rparr>],
            answerIsCorrect = False, hintIndex = None\<rparr>
           else (case jsToHumanReadable numStr (errorInput r) of
                   Inl err \<Rightarrow> Inl err
                 | Inr renderedInput \<Rightarrow>
                     (case fixErrorString lineMap e of
                        Inl err \<Rightarrow> Inl err
                      | Inr trace \<Rightarrow>
                          Inr \<lparr>paragraphs =
                 [\<lparr>paragraphType = TextParagraph,
                   content = Some (''Looks like your code had a runtime error when evaluating '' @
                                   ''the input '' @ renderedInput @ ''. Here's the trace:'')\<rparr>,
                  \<lparr>paragraphType = CodeParagraph, content = Some trace\<rparr>],
               answerIsCorrect = False, hintIndex = None\<rparr>)))"
    unfolding sel timeout_feedback infiniteLoop_feedback runtimeError_feedback [OF assms(1)]
    by (simp split: sum.split)
  have 2: "getFeedbackWithoutReinforcement numStr timeLimit lastSnapshot' tasks' r' lineMap' =
           getFeedbackWithoutReinforcement numStr timeLimit lastSnapshot tasks r lineMap"
    if "startsWith e ''TimeLimitError'' \<or> startsWith e ''ExternalError: RangeError''"
    using that unfolding sel [of numStr timeLimit lastSnapshot tasks lineMap]
      sel' [of numStr timeLimit lastSnapshot' tasks' lineMap']
    by auto
  have 3: "getFeedbackWithoutReinforcement numStr timeLimit lastSnapshot' tasks' r' lineMap =
           getFeedbackWithoutReinforcement numStr timeLimit lastSnapshot tasks r lineMap"
    if "errorInput r' = errorInput r"
    unfolding sel [of numStr timeLimit lastSnapshot tasks lineMap]
      sel' [of numStr timeLimit lastSnapshot' tasks' lineMap]
      runtimeError_feedback [OF assms(1)] runtimeError_feedback [OF assms(3)] that
    by simp
  from 1 2 3 show ?thesis
    unfolding Let_def by simp
qed


theorem error_string_selects_feedback_witness:
  "getFeedbackWithoutReinforcement numberToString 3 None reverseWordsTasks
     (erroringResult ''TimeLimitError: Program exceeded run time limit.'') exampleLineMap =
     Inr \<lparr>paragraphs =
            [\<lparr>paragraphType = TextParagraph,
              content = Some (''Your program's exceeded the time limit (3 seconds) we've '' @
                              ''set. Can you try to make it run more efficiently?'')\<rparr>],
          answerIsCorrect = False, hintIndex = None\<rparr> \<and>
   getFeedbackWithoutReinforcement numberToString 3
     (Some (snapshotOf ''def reverseWords(s): return s'' (hintFeedback 1))) laterBugTasks
     ((submission ''while True: pass'')
        \<lparr>errorString := Some ''TimeLimitError: Program exceeded run time limit.'',
         errorInput := JStr ''moo cow bark dog''\<rparr>) [] =
     getFeedbackWithoutReinforcement numberToString 3 None reverseWordsTasks
       (erroringResult ''TimeLimitError: Program exceeded run time limit.'') exampleLineMap \<and>
   getFeedbackWithoutReinforcement numberToString 3 None reverseWordsTasks
     (erroringResult ''ExternalError: RangeError: Maximum call stack size exceeded on line 2'')
     exampleLineMap =
     Inr \<lparr>paragraphs =
            [\<lparr>paragraphType = TextParagraph,
              content = Some (''Looks like your code is hitting an infinite recursive loop. '' @
                              ''Check to see that your recursive calls terminate.'')\<rparr>],
          answerIsCorrect = False, hintIndex = None\<rparr> \<and>
   getFeedbackWithoutReinforcement numberToString 3 None reverseWordsTasks
     (erroringResult ''ZeroDivisionError: integer division or modulo by zero on line 7'')
     exampleLineMap =
     Inr \<lparr>paragraphs =
            [\<lparr>paragraphType = TextParagraph,
              content = Some (''Looks like your code had a runtime error when evaluating '' @
                              ''the input '' @ [dquote] @ ''ab'' @ [dquote] @
                              ''. Here's the trace:'')\<rparr>,
             \<lparr>paragraphType = CodeParagraph,
              content = Some (''ZeroDivisionError: integer division or modulo by zero on '' @
                              ''a line in the test code'')\<rparr>],
          answerIsCorrect = False, hintIndex = None\<rparr> \<and>
   getFeedbackWithoutReinforcement numberToString 3
     (Some (snapshotOf ''def reverseWords(s): return s'' (hintFeedback 1))) laterBugTasks
     ((erroringResult ''ZeroDivisionError: integer division or modulo by zero on line 7'')
        \<lparr>preprocessedCode := ''def reverseWords(s): return 0 / 0'',
         buggyOutputTestResults := [[True], [True]],
         correctnessTestResults := [[JNull], [JNull]],
         performanceTestResults := [[''quadratic''], [''quadratic'']]\<rparr>) exampleLineMap =
     getFeedbackWithoutReinforcement numberToString 3 None reverseWordsTasks
       (erroringResult ''ZeroDivisionError: integer division or modulo by zero on line 7'')
       exampleLineMap"
proof -
  let ?t = "''TimeLimitError: Program exceeded run time limit.''"
  let ?i = "''ExternalError: RangeError: Maximum call stack size exceeded on line 2''"
  let ?b = "''ZeroDivisionError: integer division or modulo by zero on ''"
  let ?z = "''ZeroDivisionError: integer division or modulo by zero on line 7''"
  let ?snap = "Some (snapshotOf ''def reverseWords(s): return s'' (hintFeedback 1))"
  let ?rt = "(submission ''while True: pass'')
               \<lparr>errorString := Some ?t, errorInput := JStr ''moo cow bark dog''\<rparr>"
  let ?rz = "(erroringResult ?z)
               \<lparr>preprocessedCode := ''def reverseWords(s): return 0 / 0'',
                buggyOutputTestResults := [[True], [True]],
                correctnessTestResults := [[JNull], [JNull]],
                performanceTestResults := [[''quadratic''], [''quadratic'']]\<rparr>"
  have e: "errorString (erroringResult x) = Some x" for x
    by (simp add: erroringResult_def)
  have et: "errorString ?rt = Some ?t"
    by simp
  have ez: "errorString ?rz = Some ?z" and iz: "errorInput ?rz = errorInput (erroringResult ?z)"
    by (simp_all add: erroringResult_def)
  have ne: "?t \<noteq> []" "?i \<noteq> []" "?z \<noteq> []"
    by simp_all
  have s: "startsWith ?t ''TimeLimitError''" "\<not> startsWith ?i ''TimeLimitError''"
    "startsWith ?i ''ExternalError: RangeError''" "\<not> startsWith ?z ''TimeLimitError''"
    "\<not> startsWith ?z ''ExternalError: RangeError''"
    by (simp_all add: startsWith_def)
  have n: "numberToString 3 = ''3''"
    by (simp add: numberToString.simps digitChar_def)
  have ri: "jsToHumanReadable numberToString (errorInput (erroringResult ?z)) =
              Inr ([dquote] @ ''ab'' @ [dquote])"
    by (simp add: erroringResult_def replaceAll_def tab_def newline_def)
  have "findLineRef (?b @ ''line '' @ ''7'') = Some (?b, ''7'')"
    by (rule findLineRef_trailing) (simp_all add: isDigit_def)
  then have fx: "fixErrorString exampleLineMap ?z = Inr (?b @ ''a line in the test code'')"
    by (simp add: fixErrorString_def remapLine_def toNumber_def digitValue_def
          exampleLineMap_def)
  note T = error_string_selects_feedback
             [OF e ne(1) et, where numStr = numberToString and timeLimit = 3
                and lastSnapshot = None and tasks = reverseWordsTasks
                and lineMap = exampleLineMap and lastSnapshot' = ?snap
                and tasks' = laterBugTasks and lineMap' = "[]", unfolded Let_def]
  note I = error_string_selects_feedback
             [OF e ne(2) e, where numStr = numberToString and timeLimit = 3
                and lastSnapshot = None and tasks = reverseWordsTasks
                and lineMap = exampleLineMap, unfolded Let_def]
  note Z = error_string_selects_feedback
             [OF e ne(3) ez, where numStr = numberToString and timeLimit = 3
                and lastSnapshot = None and tasks = reverseWordsTasks
                and lineMap = exampleLineMap and lastSnapshot' = ?snap
                and tasks' = laterBugTasks, unfolded Let_def]
  have 1: "getFeedbackWithoutReinforcement numberToString 3 None reverseWordsTasks
             (erroringResult ?t) exampleLineMap =
           Inr \<lparr>paragraphs =
            [\<lparr>paragraphType = TextParagraph,
              content = Some (''Your program's exceeded the time limit (3 seconds) we've '' @
                              ''set. Can you try to make it run more efficiently?'')\<rparr>],
          answerIsCorrect = False, hintIndex = None\<rparr>"
    using T [THEN conjunct1] s(1) by (simp add: n)
  have 2: "getFeedbackWithoutReinforcement numberToString 3 ?snap laterBugTasks ?rt [] =
           getFeedbackWithoutReinforcement numberToString 3 None reverseWordsTasks
             (erroringResult ?t) exampleLineMap"
    using T [THEN conjunct2, THEN conjunct1] s(1) by blast
  have 3: "getFeedbackWithoutReinforcement numberToString 3 None reverseWordsTasks
             (erroringResult ?i) exampleLineMap =
           Inr \<lparr>paragraphs =
            [\<lparr>paragraphType = TextParagraph,
              content = Some (''Looks like your code is hitting an infinite recursive loop. '' @
                              ''Check to see that your recursive calls terminate.'')\<rparr>],
          answerIsCorrect = False, hintIndex = None\<rparr>"
    using I [THEN conjunct1] s(2,3) by simp
  have 4: "getFeedbackWithoutReinforcement numberToString 3 None reverseWordsTasks
             (erroringResult ?z) exampleLineMap =
           Inr \<lparr>paragraphs =
            [\<lparr>paragraphType = TextParagraph,
              content = Some (''Looks like your code had a runtime error when evaluating '' @
                              ''the input '' @ [dquote] @ ''ab'' @ [dquote] @
                              ''. Here's the trace:'')\<rparr>,
             \<lparr>paragraphType = CodeParagraph,
              content = Some (''ZeroDivisionError: integer division or modulo by zero on '' @
                              ''a line in the test code'')\<rparr>],
          answerIsCorrect = False, hintIndex = None\<rparr>"
    using Z [THEN conjunct1] s(4,5) by (simp add: ri fx)
  have 5: "getFeedbackWithoutReinforcement numberToString 3 ?snap laterBugTasks ?rz
             exampleLineMap =
           getFeedbackWithoutReinforcement numberToString 3 None reverseWordsTasks
             (erroringResult ?z) exampleLineMap"
    using Z [THEN conjunct2, THEN conjunct2, THEN conjunct1] iz by blast
  from 1 2 3 4 5 show ?thesis by (simp only: simp_thms)
qed

theorem error_input_changes_feedback_counterexample:
  "errorString (erroringResult ''ZeroDivisionError: integer division or modulo by zero on line 3'') =
     errorString
       ((erroringResult ''ZeroDivisionError: integer division or modulo by zero on line 3'')
          \<lparr>errorInput := JStr ''moo''\<rparr>) \<and>
   getFeedbackWithoutReinforcement numberToString 3 None reverseWordsTasks
     (erroringResult ''ZeroDivisionError: integer division or modulo by zero on line 3'')
     exampleLineMap =
     Inr \<lparr>paragraphs =
            [\<lparr>paragraphType = TextParagraph,
              content = Some (''Looks like your code had a runtime error when evaluating '' @
                              ''the input '' @ [dquote] @ ''ab'' @ [dquote] @
                              ''. Here's the trace:'')\<rparr>,
             \<lparr>paragraphType = CodeParagraph,
              content = Some (''ZeroDivisionError: integer division or modulo by zero on '' @
                              ''line 2'')\<rparr>],
          answerIsCorrect = False, hintIndex = None\<rparr> \<and>
   getFeedbackWithoutReinforcement numberToString 3 None reverseWordsTasks
     ((erroringResult ''ZeroDivisionError: integer division or modulo by zero on line 3'')
        \<lparr>errorInput := JStr ''moo''\<rparr>)
     exampleLineMap =
     Inr \<lparr>paragraphs =
            [\<lparr>paragraphType = TextParagraph,
              content = Some (''Looks like your code had a runtime error when evaluating '' @
                              ''the input '' @ [dquote] @ ''moo'' @ [dquote] @
                              ''. Here's the trace:'')\<rparr>,
             \<lparr>paragraphType = CodeParagraph,
              content = Some (''ZeroDivisionError: integer division or modulo by zero on '' @
                              ''line 2'')\<rparr>],
          answerIsCorrect = False, hintIndex = None\<rparr> \<and>
   getFeedbackWithoutReinforcement numberToString 3 None reverseWordsTasks
     (erroringResult ''ZeroDivisionError: integer division or modulo by zero on line 3'')
     exampleLineMap \<noteq>
   getFeedbackWithoutReinforcement numberToString 3 None reverseWordsTasks
     ((erroringResult ''ZeroDivisionError: integer division or modulo by zero on line 3'')
        \<lparr>errorInput := JStr ''moo''\<rparr>)
     exampleLineMap"
proof -
  let ?b = "''ZeroDivisionError: integer division or modulo by zero on ''"
  let ?z = "''ZeroDivisionError: integer division or modulo by zero on line 3''"
  let ?r = "erroringResult ?z"
  let ?r' = "(erroringResult ?z)\<lparr>errorInput := JStr ''moo''\<rparr>"
  have e: "errorString ?r = Some ?z" "errorString ?r' = Some ?z"
    by (simp_all add: erroringResult_def)
  have ne: "?z \<noteq> []"
    by simp
  have s: "\<not> startsWith ?z ''TimeLimitError''" "\<not> startsWith ?z ''ExternalError: RangeError''"
    by (simp_all add: startsWith_def)
  have ri: "jsToHumanReadable numberToString (errorInput ?r) = Inr ([dquote] @ ''ab'' @ [dquote])"
    "jsToHumanReadable numberToString (errorInput ?r') = Inr ([dquote] @ ''moo'' @ [dquote])"
    "jsToHumanReadable numberToString (JStr ''moo'') = Inr ([dquote] @ ''moo'' @ [dquote])"
    by (simp_all add: erroringResult_def replaceAll_def tab_def newline_def)
  have k: "numberToString (Suc (Suc 0)) = ''2''"
    by (simp add: numberToString.simps digitChar_def)
  have "findLineRef (?b @ ''line '' @ ''3'') = Some (?b, ''3'')"
    by (rule findLineRef_trailing) (simp_all add: isDigit_def)
  then have fx: "fixErrorString exampleLineMap ?z = Inr (?b @ ''line 2'')"
    by (simp add: fixErrorString_def remapLine_def toNumber_def digitValue_def
          exampleLineMap_def k)
  have 1: "getFeedbackWithoutReinforcement numberToString 3 None reverseWordsTasks ?r
             exampleLineMap =
           Inr \<lparr>paragraphs =
            [\<lparr>paragraphType = TextParagraph,
              content = Some (''Looks like your code had a runtime error when evaluating '' @
                              ''the input '' @ [dquote] @ ''ab'' @ [dquote] @
                              ''. Here's the trace:'')\<rparr>,
             \<lparr>paragraphType = CodeParagraph,
              content = Some (''ZeroDivisionError: integer division or modulo by zero on '' @
                              ''line 2'')\<rparr>],
          answerIsCorrect = False, hintIndex = None\<rparr>"
    unfolding error_feedback_selected [OF e(1) ne] runtimeError_feedback [OF e(1)]
    using s by (simp add: ri(1) fx)
  have 2: "getFeedbackWithoutReinforcement numberToString 3 None reverseWordsTasks ?r'
             exampleLineMap =
           Inr \<lparr>paragraphs =
            [\<lparr>paragraphType = TextParagraph,
              content = Some (''Looks like your code had a runtime error when evaluating '' @
                              ''the input '' @ [dquote] @ ''moo'' @ [dquote] @
                              ''. Here's the trace:'')\<rparr>,
             \<lparr>paragraphType = CodeParagraph,
              content = Some (''ZeroDivisionError: integer division or modulo by zero on '' @
                              ''line 2'')\<rparr>],
          answerIsCorrect = False, hintIndex = None\<rparr>"
    unfolding error_feedback_selected [OF e(2) ne] runtimeError_feedback [OF e(2)]
    using s by (simp add: ri fx replaceAll_def tab_def newline_def)
  have 3: "getFeedbackWithoutReinforcement numberToString 3 None reverseWordsTasks ?r
             exampleLineMap \<noteq>
           getFeedbackWithoutReinforcement numberToString 3 None reverseWordsTasks ?r'
             exampleLineMap"
    unfolding 1 2 by (simp add: dquote_def)
  from e 1 2 3 show ?thesis by (simp only: simp_thms)
qed

section \<open>Properties of the selection among the tests\<close>

lemma find_append_case:
  "find P (xs @ ys) = (case find P xs of None \<Rightarrow> find P ys | Some x \<Rightarrow> Some x)"
  by (induction xs) auto

lemma buggyOutputLoop_find:
  assumes "i < length (buggyOutputTestResults r)"
  shows "buggyOutputLoop snap r i j ts =
           (case find (fails r) (map (\<lambda>(j, b). BuggyOutput i j b) (enumerate j ts)) of
              None \<Rightarrow> Inr None
            | Some x \<Rightarrow> map_sum id Some (feedbackFor numStr snap r x))"
  using assms by (induction ts arbitrary: j) (auto simp: at_def resultAt_def)

lemma correctnessLoop_find:
  assumes "i < length (correctnessTestResults r)"
  shows "correctnessLoop numStr r (outputFunctionNameWithoutClass t) i j ts =
           (case find (fails r) (map (\<lambda>(j, c). Correctness i j t c) (enumerate j ts)) of
              None \<Rightarrow> Inr None
            | Some x \<Rightarrow> map_sum id Some (feedbackFor numStr snap r x))"
  using assms
  by (induction ts arbitrary: j) (auto simp: at_def resultAt_def observedOutputAt_def Let_def)

lemma performanceLoop_find:
  assumes "i < length (performanceTestResults r)"
  shows "performanceLoop r i j ts =
           (case find (fails r) (map (\<lambda>(j, p). Performance i j p) (enumerate j ts)) of
              None \<Rightarrow> Inr None
            | Some x \<Rightarrow> map_sum id Some (feedbackFor numStr snap r x))"
  using assms by (induction ts arbitrary: j) (auto simp: at_def resultAt_def Let_def)

lemma unwrap_found:
  "(case map_sum id Some s of Inl e \<Rightarrow> Inl e | Inr None \<Rightarrow> z | Inr (Some f) \<Rightarrow> Inr f) = s"
  by (cases s) simp_all

lemma taskLoop_find:
  assumes "i + length ts \<le> length (buggyOutputTestResults r)"
    and "i + length ts \<le> length (correctnessTestResults r)"
    and "i + length ts \<le> length (performanceTestResults r)"
  shows "taskLoop numStr snap r i ts =
           (case find (fails r) (scanOrder i ts) of
              None \<Rightarrow> Inr completionFeedback
            | Some x \<Rightarrow> feedbackFor numStr snap r x)"
  using assms
proof (induction ts arbitrary: i)
  case Nil
  show ?case
    by (simp add: completionFeedback_def appendTextParagraph_def createFeedback_def)
next
  case (Cons t ts)
  have b: "i < length (buggyOutputTestResults r)"
    and c: "i < length (correctnessTestResults r)"
    and p: "i < length (performanceTestResults r)"
    using Cons.prems by simp_all
  have ih: "taskLoop numStr snap r (i + 1) ts =
              (case find (fails r) (scanOrder (i + 1) ts) of
                 None \<Rightarrow> Inr completionFeedback
               | Some x \<Rightarrow> feedbackFor numStr snap r x)"
    using Cons.prems by (intro Cons.IH) simp_all
  show ?case
    unfolding taskLoop.simps scanOrder.simps testsOfTask_def find_append_case
      buggyOutputLoop_find [OF b, where numStr = numStr]
      correctnessLoop_find [OF c, where snap = snap]
      performanceLoop_find [OF p, where numStr = numStr and snap = snap] ih
    by (simp add: unwrap_found split: option.split)
qed

text \<open>
  Claim C1. For an evaluation result without error whose result sequences have a row for
  every task, the feedback is that of the first failing test in the scan order: the tasks in
  their original order and, within a task, the buggy-output tests, then the correctness
  tests, then the performance tests; when no test fails it is the completion feedback.
  A buggy-output test fails when its flag is true, a correctness test when the observed
  output matches no allowed output, a performance test when the observed class differs from
  the expected one.
\<close>

theorem first_failing_test_selected:
  assumes "\<not> truthy (errorString r)" and "resultsCoverTasks tasks r"
  shows "getFeedbackWithoutReinforcement numStr timeLimit lastSnapshot tasks r lineMap =
           (case find (fails r) (scanOrder 0 tasks) of
              None \<Rightarrow> Inr completionFeedback
            | Some x \<Rightarrow> feedbackFor numStr lastSnapshot r x)"
  using assms
  by (simp add: getFeedbackWithoutReinforcement_def resultsCoverTasks_def taskLoop_find)

theorem first_failing_test_selected_witness:
  "\<not> truthy (errorString unreversedNumbersResult) \<and>
   resultsCoverTasks reverseWordsTasks unreversedNumbersResult \<and>
   getFeedbackWithoutReinforcement numberToString 3 None reverseWordsTasks
     unreversedNumbersResult [] =
     Inr \<lparr>paragraphs =
            [\<lparr>paragraphType = TextParagraph,
              content = Some ''Your code produced the following result:''\<rparr>,
             \<lparr>paragraphType = CodeParagraph,
              content = Some (''Input: '' @ [dquote] @ ''123 456 789 '' @ [dquote, newline] @
                              ''Output: '' @ [dquote] @ ''123 456 789 '' @ [dquote])\<rparr>,
             \<lparr>paragraphType = TextParagraph,
              content = Some ''However, the expected output is:''\<rparr>,
             \<lparr>paragraphType = CodeParagraph,
              content = Some ([dquote] @ ''321 654 987 '' @ [dquote])\<rparr>,
             \<lparr>paragraphType = TextParagraph, content = Some ''Could you fix this?''\<rparr>],
          answerIsCorrect = False, hintIndex = None\<rparr>"
proof -
  have e: "\<not> truthy (errorString unreversedNumbersResult)"
    by (simp add: unreversedNumbersResult_def passingResult_def truthy_def)
  have c: "resultsCoverTasks reverseWordsTasks unreversedNumbersResult"
    by (simp add: resultsCoverTasks_def reverseWordsTasks_def unreversedNumbersResult_def
          passingResult_def)
  have f: "find (fails unreversedNumbersResult) (scanOrder 0 reverseWordsTasks) =
             Some (Correctness 1 2 (reverseWordsTasks ! 1)
                     \<lparr>input = JStr ''123 456 789 '', allowedOutputs = [JStr ''321 654 987 '']\<rparr>)"
    by (simp add: reverseWordsTasks_def testsOfTask_def unreversedNumbersResult_def
          passingResult_def resultAt_def at_def observedOutputAt_def matchesOutput_def
          forgetLastWordTest_def reverseStringTest_def tab_def)
  have o: "observedOutputAt unreversedNumbersResult 1 2 = JStr ''123 456 789 ''"
    by (simp add: unreversedNumbersResult_def passingResult_def resultAt_def at_def
          observedOutputAt_def)
  have n: "outputFunctionNameWithoutClass (reverseWordsTasks ! 1) = None"
    by (simp add: reverseWordsTasks_def)
  have g: "getCorrectnessTestFeedback numberToString None
             \<lparr>input = JStr ''123 456 789 '', allowedOutputs = [JStr ''321 654 987 '']\<rparr>
             (JStr ''123 456 789 '') =
           Inr \<lparr>paragraphs =
            [\<lparr>paragraphType = TextParagraph,
              content = Some ''Your code produced the following result:''\<rparr>,
             \<lparr>paragraphType = CodeParagraph,
              content = Some (''Input: '' @ [dquote] @ ''123 456 789 '' @ [dquote, newline] @
                              ''Output: '' @ [dquote] @ ''123 456 789 '' @ [dquote])\<rparr>,
             \<lparr>paragraphType = TextParagraph,
              content = Some ''However, the expected output is:''\<rparr>,
             \<lparr>paragraphType = CodeParagraph,
              content = Some ([dquote] @ ''321 654 987 '' @ [dquote])\<rparr>,
             \<lparr>paragraphType = TextParagraph, content = Some ''Could you fix this?''\<rparr>],
          answerIsCorrect = False, hintIndex = None\<rparr>"
    by (simp add: getCorrectnessTestFeedback_def getAnyAllowedOutput_def truthy_def
          appendTextParagraph_def appendCodeParagraph_def createFeedback_def replaceAll_def
          tab_def newline_def)
  from first_failing_test_selected [OF e c, of numberToString 3 None "[]"]
  have "getFeedbackWithoutReinforcement numberToString 3 None reverseWordsTasks
          unreversedNumbersResult [] =
        getCorrectnessTestFeedback numberToString None
          \<lparr>input = JStr ''123 456 789 '', allowedOutputs = [JStr ''321 654 987 '']\<rparr>
          (JStr ''123 456 789 '')"
    by (simp only: f option.case feedbackFor.simps o n)
  with e c g show ?thesis by (simp only: simp_thms)
qed

lemma find_buggy_cases:
  "find (fails r) (map (\<lambda>(j, b). BuggyOutput i j b) (enumerate 0 bs)) = None \<or>
   (\<exists>j < length bs. resultAt (buggyOutputTestResults r) i j = Some True \<and>
      find (fails r) (map (\<lambda>(j, b). BuggyOutput i j b) (enumerate 0 bs)) =
        Some (BuggyOutput i j (bs ! j)))"
proof (cases "find (fails r) (map (\<lambda>(j, b). BuggyOutput i j b) (enumerate 0 bs))")
  case None
  then show ?thesis by simp
next
  case (Some x)
  then obtain m where m: "m < length bs"
    and f: "fails r (map (\<lambda>(j, b). BuggyOutput i j b) (enumerate 0 bs) ! m)"
    and x: "x = map (\<lambda>(j, b). BuggyOutput i j b) (enumerate 0 bs) ! m"
    unfolding find_Some_iff by auto
  from m have e: "map (\<lambda>(j, b). BuggyOutput i j b) (enumerate 0 bs) ! m = BuggyOutput i m (bs ! m)"
    by (simp add: nth_enumerate_eq)
  from f have "fails r (BuggyOutput i m (bs ! m))"
    by (simp only: e)
  then have "resultAt (buggyOutputTestResults r) i m = Some True"
    by simp
  moreover from Some x e
  have "find (fails r) (map (\<lambda>(j, b). BuggyOutput i j b) (enumerate 0 bs)) =
          Some (BuggyOutput i m (bs ! m))"
    by simp
  ultimately show ?thesis using m by blast
qed

lemma find_buggy_hit:
  assumes "j < length bs" and "resultAt (buggyOutputTestResults r) i j = Some True"
  shows "find (fails r) (map (\<lambda>(j, b). BuggyOutput i j b) (enumerate 0 bs)) \<noteq> None"
proof -
  have "BuggyOutput i j (bs ! j) \<in> set (map (\<lambda>(j, b). BuggyOutput i j b) (enumerate 0 bs))"
    using assms(1) by (force simp: in_set_enumerate_eq)
  moreover have "fails r (BuggyOutput i j (bs ! j))"
    using assms(2) by simp
  ultimately show ?thesis
    unfolding find_None_iff by blast
qed

lemma find_others_none:
  assumes "onlyBuggyOutputFailures r i t"
  shows "find (fails r) (map (\<lambda>(j, c). Correctness i j t c) (enumerate 0 (correctnessTests t))) = None"
    and "find (fails r) (map (\<lambda>(j, p). Performance i j p) (enumerate 0 (performanceTests t))) = None"
proof -
  have a: "case x of BuggyOutput _ _ _ \<Rightarrow> True | _ \<Rightarrow> \<not> fails r x"
    if "x \<in> set (testsOfTask i t)" for x
    using assms that unfolding onlyBuggyOutputFailures_def list_all_iff by blast
  show "find (fails r) (map (\<lambda>(j, c). Correctness i j t c) (enumerate 0 (correctnessTests t))) = None"
    unfolding find_None_iff
  proof
    assume "\<exists>x. x \<in> set (map (\<lambda>(j, c). Correctness i j t c) (enumerate 0 (correctnessTests t))) \<and>
                fails r x"
    then obtain x where x: "x \<in> set (map (\<lambda>(j, c). Correctness i j t c) (enumerate 0 (correctnessTests t)))"
      and f: "fails r x" by blast
    from x obtain j c where c: "x = Correctness i j t c" by auto
    from x have "x \<in> set (testsOfTask i t)" by (simp add: testsOfTask_def)
    from a [OF this] c f show False by simp
  qed
  show "find (fails r) (map (\<lambda>(j, p). Performance i j p) (enumerate 0 (performanceTests t))) = None"
    unfolding find_None_iff
  proof
    assume "\<exists>x. x \<in> set (map (\<lambda>(j, p). Performance i j p) (enumerate 0 (performanceTests t))) \<and>
                fails r x"
    then obtain x where x: "x \<in> set (map (\<lambda>(j, p). Performance i j p) (enumerate 0 (performanceTests t)))"
      and f: "fails r x" by blast
    from x obtain j p where c: "x = Performance i j p" by auto
    from x have "x \<in> set (testsOfTask i t)" by (simp add: testsOfTask_def)
    from a [OF this] c f show False by simp
  qed
qed

lemma find_scan_buggy:
  assumes "k < length ts"
    and "j < length (buggyOutputTests (ts ! k))"
    and "resultAt (buggyOutputTestResults r) (i0 + k) j = Some True"
    and "\<forall>k' < k. onlyBuggyOutputFailures r (i0 + k') (ts ! k')"
  shows "\<exists>k' j'. k' \<le> k \<and> j' < length (buggyOutputTests (ts ! k')) \<and>
           resultAt (buggyOutputTestResults r) (i0 + k') j' = Some True \<and>
           find (fails r) (scanOrder i0 ts) =
             Some (BuggyOutput (i0 + k') j' (buggyOutputTests (ts ! k') ! j'))"
  using assms
proof (induction ts arbitrary: i0 k)
  case Nil
  then show ?case by simp
next
  case (Cons t ts)
  let ?B = "find (fails r) (map (\<lambda>(j, b). BuggyOutput i0 j b) (enumerate 0 (buggyOutputTests t)))"
  show ?case
  proof (cases "?B = None")
    case False
    with find_buggy_cases [of r i0 "buggyOutputTests t"]
    obtain j' where hit: "j' < length (buggyOutputTests t)"
        "resultAt (buggyOutputTestResults r) i0 j' = Some True"
        "?B = Some (BuggyOutput i0 j' (buggyOutputTests t ! j'))"
      by auto
    then have "find (fails r) (scanOrder i0 (t # ts)) =
                 Some (BuggyOutput (i0 + 0) j' (buggyOutputTests ((t # ts) ! 0) ! j'))"
      by (simp add: testsOfTask_def find_append_case)
    with hit show ?thesis
      by (intro exI [of _ 0] exI [of _ j']) simp
  next
    case True
    note none = this
    have "k \<noteq> 0"
    proof
      assume "k = 0"
      with Cons.prems(2,3) find_buggy_hit [of j "buggyOutputTests t" r i0] none
      show False by simp
    qed
    then obtain k1 where k: "k = Suc k1" by (cases k) auto
    from Cons.prems(4) k have o: "onlyBuggyOutputFailures r i0 t"
      by (metis add_0_right nth_Cons_0 zero_less_Suc)
    have rest: "find (fails r) (scanOrder i0 (t # ts)) = find (fails r) (scanOrder (i0 + 1) ts)"
      using none find_others_none [OF o] by (simp add: testsOfTask_def find_append_case)
    have "\<forall>k' < k1. onlyBuggyOutputFailures r (i0 + 1 + k') (ts ! k')"
    proof (intro allI impI)
      fix k' assume "k' < k1"
      then have "Suc k' < k" using k by simp
      with Cons.prems(4) have "onlyBuggyOutputFailures r (i0 + Suc k') ((t # ts) ! Suc k')"
        by blast
      then show "onlyBuggyOutputFailures r (i0 + 1 + k') (ts ! k')" by simp
    qed
    with Cons.IH [of k1 "i0 + 1"] Cons.prems(1,2,3) k
    obtain k' j' where "k' \<le> k1" "j' < length (buggyOutputTests (ts ! k'))"
      "resultAt (buggyOutputTestResults r) (i0 + 1 + k') j' = Some True"
      "find (fails r) (scanOrder (i0 + 1) ts) =
         Some (BuggyOutput (i0 + 1 + k') j' (buggyOutputTests (ts ! k') ! j'))"
      by auto
    with rest k show ?thesis
      by (intro exI [of _ "Suc k'"] exI [of _ j']) simp
  qed
qed

lemma scanOrder_append:
  "scanOrder i0 (xs @ ys) = scanOrder i0 xs @ scanOrder (i0 + length xs) ys"
  by (induction xs arbitrary: i0) simp_all

lemma in_scanOrder:
  assumes "k < length ts" and "y \<in> set (testsOfTask (i0 + k) (ts ! k))"
  shows "y \<in> set (scanOrder i0 ts)"
  using assms
proof (induction ts arbitrary: i0 k)
  case Nil
  then show ?case by simp
next
  case (Cons t ts)
  show ?case
  proof (cases k)
    case 0
    with Cons.prems show ?thesis by simp
  next
    case (Suc k1)
    with Cons.prems have "k1 < length ts" and "y \<in> set (testsOfTask (i0 + 1 + k1) (ts ! k1))"
      by simp_all
    then have "y \<in> set (scanOrder (i0 + 1) ts)" by (rule Cons.IH)
    then show ?thesis by simp
  qed
qed

lemma scanOrder_member:
  assumes "y \<in> set (scanOrder i0 ts)"
  shows "\<exists>k < length ts. y \<in> set (testsOfTask (i0 + k) (ts ! k))"
  using assms
proof (induction ts arbitrary: i0)
  case Nil
  then show ?case by simp
next
  case (Cons t ts)
  from Cons.prems consider "y \<in> set (testsOfTask i0 t)" | "y \<in> set (scanOrder (i0 + 1) ts)"
    by auto
  then show ?case
  proof cases
    case 1
    then have "y \<in> set (testsOfTask (i0 + 0) ((t # ts) ! 0))" by simp
    then show ?thesis by (intro exI [of _ 0]) simp
  next
    case 2
    from Cons.IH [OF this] obtain k where "k < length ts"
      and "y \<in> set (testsOfTask (i0 + 1 + k) (ts ! k))" by blast
    then show ?thesis by (intro exI [of _ "Suc k"]) simp
  qed
qed

lemma find_scan_other:
  assumes "i < length tasks"
    and "x \<in> set (testsOfTask i (tasks ! i))"
    and "\<not> isBuggyOutput x"
    and "fails r x"
    and "\<forall>i' \<le> i. noBuggyOutputFailure r i' (tasks ! i')"
  shows "\<exists>i' \<le> i. \<exists>y \<in> set (testsOfTask i' (tasks ! i')).
           \<not> isBuggyOutput y \<and> fails r y \<and> find (fails r) (scanOrder 0 tasks) = Some y"
proof -
  let ?A = "scanOrder 0 (take (Suc i) tasks)"
  let ?B = "scanOrder (0 + length (take (Suc i) tasks)) (drop (Suc i) tasks)"
  have split: "scanOrder 0 tasks = ?A @ ?B"
    using scanOrder_append [of 0 "take (Suc i) tasks" "drop (Suc i) tasks"] by simp
  have "x \<in> set ?A"
    using assms(1,2) by (intro in_scanOrder [of i]) simp_all
  with assms(4) have "find (fails r) ?A \<noteq> None"
    unfolding find_None_iff by blast
  then obtain y where y: "find (fails r) ?A = Some y" by blast
  then have f: "find (fails r) (scanOrder 0 tasks) = Some y"
    by (simp add: split find_append_case)
  from y have "y \<in> set ?A" and fy: "fails r y"
    unfolding find_Some_iff by auto
  from scanOrder_member [OF this(1)] obtain k where k: "k < length (take (Suc i) tasks)"
    and m: "y \<in> set (testsOfTask (0 + k) (take (Suc i) tasks ! k))" by blast
  from k have ki: "k \<le> i" by simp
  with m have m': "y \<in> set (testsOfTask k (tasks ! k))" by simp
  from assms(5) ki have "noBuggyOutputFailure r k (tasks ! k)" by blast
  with m' fy have "\<not> isBuggyOutput y"
    unfolding noBuggyOutputFailure_def list_all_iff by blast
  with ki m' fy f show ?thesis by blast
qed

lemma selected_by_find:
  assumes "\<not> truthy (errorString r)" and "resultsCoverTasks tasks r"
  shows "getFeedbackWithoutReinforcement numStr timeLimit lastSnapshot tasks r lineMap =
           (case find (fails r) (scanOrder 0 tasks) of
              None \<Rightarrow> Inr completionFeedback
            | Some x \<Rightarrow> feedbackFor numStr lastSnapshot r x)"
  using assms
  by (simp add: getFeedbackWithoutReinforcement_def resultsCoverTasks_def taskLoop_find)

text \<open>
  Claim C3, as stated, fails: a failing buggy-output test of the second task does not outrank
  a failing correctness or performance test of the first task, since the scan goes task by
  task. What holds, for an evaluation result without error: when a buggy-output test of
  some task fails and no correctness or performance test of an earlier task fails, the
  feedback is that of a failing buggy-output test, of that task or of an earlier one; and
  when a correctness or performance test of some task fails and no buggy-output test of
  that task or of an earlier one fails, the feedback is that of a failing correctness or
  performance test, of that task or of an earlier one, whatever buggy-output tests fail in
  later tasks.
\<close>

theorem failing_test_of_earliest_task_reported:
  assumes "\<not> truthy (errorString r)"
    and "resultsCoverTasks tasks r"
    and "i < length tasks"
  shows "(j < length (buggyOutputTests (tasks ! i)) \<and>
          resultAt (buggyOutputTestResults r) i j = Some True \<and>
          (\<forall>i' < i. onlyBuggyOutputFailures r i' (tasks ! i')) \<longrightarrow>
          (\<exists>i' j'. i' \<le> i \<and> j' < length (buggyOutputTests (tasks ! i')) \<and>
             resultAt (buggyOutputTestResults r) i' j' = Some True \<and>
             getFeedbackWithoutReinforcement numStr timeLimit lastSnapshot tasks r lineMap =
               getBuggyOutputTestFeedback lastSnapshot (buggyOutputTests (tasks ! i') ! j') r)) \<and>
         (x \<in> set (testsOfTask i (tasks ! i)) \<and> \<not> isBuggyOutput x \<and> fails r x \<and>
          (\<forall>i' \<le> i. noBuggyOutputFailure r i' (tasks ! i')) \<longrightarrow>
          (\<exists>i' \<le> i. \<exists>y \<in> set (testsOfTask i' (tasks ! i')).
             \<not> isBuggyOutput y \<and> fails r y \<and>
             getFeedbackWithoutReinforcement numStr timeLimit lastSnapshot tasks r lineMap =
               feedbackFor numStr lastSnapshot r y))"
proof (intro conjI impI)
  assume h: "j < length (buggyOutputTests (tasks ! i)) \<and>
             resultAt (buggyOutputTestResults r) i j = Some True \<and>
             (\<forall>i' < i. onlyBuggyOutputFailures r i' (tasks ! i'))"
  from find_scan_buggy [of i tasks j r 0] assms(3) h
  obtain i' j' where a: "i' \<le> i" "j' < length (buggyOutputTests (tasks ! i'))"
    "resultAt (buggyOutputTestResults r) i' j' = Some True"
    "find (fails r) (scanOrder 0 tasks) =
       Some (BuggyOutput i' j' (buggyOutputTests (tasks ! i') ! j'))"
    by auto
  with selected_by_find [OF assms(1,2), of numStr timeLimit lastSnapshot lineMap]
  show "\<exists>i' j'. i' \<le> i \<and> j' < length (buggyOutputTests (tasks ! i')) \<and>
          resultAt (buggyOutputTestResults r) i' j' = Some True \<and>
          getFeedbackWithoutReinforcement numStr timeLimit lastSnapshot tasks r lineMap =
            getBuggyOutputTestFeedback lastSnapshot (buggyOutputTests (tasks ! i') ! j') r"
    by auto
next
  assume h: "x \<in> set (testsOfTask i (tasks ! i)) \<and> \<not> isBuggyOutput x \<and> fails r x \<and>
             (\<forall>i' \<le> i. noBuggyOutputFailure r i' (tasks ! i'))"
  from find_scan_other [of i tasks x r] assms(3) h
  obtain i' y where a: "i' \<le> i" "y \<in> set (testsOfTask i' (tasks ! i'))"
    "\<not> isBuggyOutput y" "fails r y" "find (fails r) (scanOrder 0 tasks) = Some y"
    by blast
  with selected_by_find [OF assms(1,2), of numStr timeLimit lastSnapshot lineMap]
  show "\<exists>i' \<le> i. \<exists>y \<in> set (testsOfTask i' (tasks ! i')).
          \<not> isBuggyOutput y \<and> fails r y \<and>
          getFeedbackWithoutReinforcement numStr timeLimit lastSnapshot tasks r lineMap =
            feedbackFor numStr lastSnapshot r y"
    by auto
qed


theorem failing_test_of_earliest_task_reported_witness:
  "resultAt (buggyOutputTestResults (laterBugResult ''oom woc krab god'' ''linear'')) 1 0 =
     Some True \<and>
   getFeedbackWithoutReinforcement numberToString 3 None laterBugTasks
     (laterBugResult ''oom woc krab god'' ''linear'') [] =
     Inr \<lparr>paragraphs =
            [\<lparr>paragraphType = TextParagraph,
              content = Some (''Whoops! It looks like you're reversing the entire string, '' @
                              ''but you should only be reversing each word in turn, not '' @
                              ''their ordering. Please check the given example, and try '' @
                              ''again.'')\<rparr>],
          answerIsCorrect = False, hintIndex = Some 0\<rparr> \<and>
   resultAt (buggyOutputTestResults (laterBugResult ''oom woc krab god'' ''quadratic'')) 1 0 =
     Some True \<and>
   getFeedbackWithoutReinforcement numberToString 3 None laterBugTasks
     (laterBugResult ''oom woc krab god'' ''quadratic'') [] =
     Inr \<lparr>paragraphs =
            [\<lparr>paragraphType = TextParagraph,
              content = Some (''Your code is running more slowly than expected. Can you '' @
                              ''reconfigure it such that it runs in linear time?'')\<rparr>],
          answerIsCorrect = False, hintIndex = None\<rparr>"
proof -
  let ?r1 = "laterBugResult ''oom woc krab god'' ''linear''"
  let ?r2 = "laterBugResult ''oom woc krab god'' ''quadratic''"
  let ?p = "Performance 0 0 \<lparr>expectedPerformance = ''linear''\<rparr> :: nat scannedTest"
  have e: "\<not> truthy (errorString (laterBugResult a b))" for a b
    by (simp add: laterBugResult_def truthy_def)
  have c: "resultsCoverTasks laterBugTasks (laterBugResult a b)" for a b
    by (simp add: resultsCoverTasks_def laterBugTasks_def laterBugResult_def)
  have i1: "1 < length laterBugTasks" and i0: "0 < length laterBugTasks"
    by (simp_all add: laterBugTasks_def)
  have t0: "testsOfTask 0 (laterBugTasks ! 0) =
              [BuggyOutput 0 0 forgetLastWordTest,
               Correctness 0 0 (laterBugTasks ! 0)
                 \<lparr>input = JStr ''moo cow bark dog'', allowedOutputs = [JStr ''oom woc krab god'']\<rparr>,
               ?p]"
    by (simp add: testsOfTask_def laterBugTasks_def)
  have b: "resultAt (buggyOutputTestResults (laterBugResult a p)) i' j' = Some True \<longleftrightarrow>
             i' = 1 \<and> j' = 0" for a p i' j'
    by (auto simp: laterBugResult_def resultAt_def at_def nth_Cons split: nat.splits)
  have o1: "\<forall>i' < 1. onlyBuggyOutputFailures ?r1 i' (laterBugTasks ! i')"
    by (simp add: onlyBuggyOutputFailures_def t0 laterBugResult_def resultAt_def at_def
          observedOutputAt_def matchesOutput_def)
  have f2: "fails ?r2 y \<longleftrightarrow> y = ?p" if "y \<in> set (testsOfTask 0 (laterBugTasks ! 0))" for y
    using that unfolding t0
    by (auto simp: laterBugResult_def resultAt_def at_def observedOutputAt_def matchesOutput_def)
  have n2: "\<forall>i' \<le> 0. noBuggyOutputFailure ?r2 i' (laterBugTasks ! i')"
    by (simp add: noBuggyOutputFailure_def t0 laterBugResult_def resultAt_def at_def)
  have h1: "0 < length (buggyOutputTests (laterBugTasks ! 1)) \<and>
            resultAt (buggyOutputTestResults ?r1) 1 0 = Some True \<and>
            (\<forall>i' < 1. onlyBuggyOutputFailures ?r1 i' (laterBugTasks ! i'))"
    using o1 by (simp add: b laterBugTasks_def)
  have h2: "?p \<in> set (testsOfTask 0 (laterBugTasks ! 0)) \<and> \<not> isBuggyOutput ?p \<and> fails ?r2 ?p \<and>
            (\<forall>i' \<le> 0. noBuggyOutputFailure ?r2 i' (laterBugTasks ! i'))"
    using n2 f2 [of ?p] by (simp add: t0)
  from failing_test_of_earliest_task_reported
         [OF e c i1, where a1 = "''oom woc krab god''" and b1 = "''linear''" and j = 0
            and numStr = numberToString and timeLimit = 3 and lastSnapshot = None
            and lineMap = "[]", THEN conjunct1] h1
  obtain i' j' where "resultAt (buggyOutputTestResults ?r1) i' j' = Some True"
    and g: "getFeedbackWithoutReinforcement numberToString 3 None laterBugTasks ?r1 [] =
              getBuggyOutputTestFeedback None (buggyOutputTests (laterBugTasks ! i') ! j') ?r1"
    by blast
  then have "i' = 1 \<and> j' = 0" by (simp add: b)
  with g have 1: "getFeedbackWithoutReinforcement numberToString 3 None laterBugTasks ?r1 [] =
                    getBuggyOutputTestFeedback None reverseStringTest ?r1"
    by (simp add: laterBugTasks_def)
  from failing_test_of_earliest_task_reported
         [OF e c i0, where a1 = "''oom woc krab god''" and b1 = "''quadratic''" and x = ?p
            and numStr = numberToString and timeLimit = 3 and lastSnapshot = None
            and lineMap = "[]", THEN conjunct2] h2
  obtain y where "y \<in> set (testsOfTask 0 (laterBugTasks ! 0))" and "fails ?r2 y"
    and g2: "getFeedbackWithoutReinforcement numberToString 3 None laterBugTasks ?r2 [] =
               feedbackFor numberToString None ?r2 y"
    by auto
  with f2 have "y = ?p" by blast
  with g2 have 2: "getFeedbackWithoutReinforcement numberToString 3 None laterBugTasks ?r2 [] =
                     Inr (getPerformanceTestFeedback ''linear'')"
    by simp
  have 3: "getBuggyOutputTestFeedback None reverseStringTest ?r1 =
     Inr \<lparr>paragraphs =
            [\<lparr>paragraphType = TextParagraph,
              content = Some (''Whoops! It looks like you're reversing the entire string, '' @
                              ''but you should only be reversing each word in turn, not '' @
                              ''their ordering. Please check the given example, and try '' @
                              ''again.'')\<rparr>],
          answerIsCorrect = False, hintIndex = Some 0\<rparr>"
    by (simp add: getBuggyOutputTestFeedback_def reverseStringTest_def at_def setHintIndex_def
          appendTextParagraph_def createFeedback_def)
  have 4: "getPerformanceTestFeedback ''linear'' =
     \<lparr>paragraphs =
            [\<lparr>paragraphType = TextParagraph,
              content = Some (''Your code is running more slowly than expected. Can you '' @
                              ''reconfigure it such that it runs in linear time?'')\<rparr>],
          answerIsCorrect = False, hintIndex = None\<rparr>"
    by (simp add: getPerformanceTestFeedback_def appendTextParagraph_def createFeedback_def)
  from 1 2 3 4 b [of _ _ 1 0] show ?thesis by (simp only: simp_thms)
qed

theorem later_buggy_output_not_reported_counterexample:
  "\<not> truthy (errorString (laterBugResult ''god krab woc oom'' ''linear'')) \<and>
   resultAt (buggyOutputTestResults (laterBugResult ''god krab woc oom'' ''linear'')) 1 0 =
     Some True \<and>
   getFeedbackWithoutReinforcement numberToString 3 None laterBugTasks
     (laterBugResult ''god krab woc oom'' ''linear'') [] =
     Inr \<lparr>paragraphs =
            [\<lparr>paragraphType = TextParagraph,
              content = Some ''Your code produced the following result:''\<rparr>,
             \<lparr>paragraphType = CodeParagraph,
              content = Some (''Input: '' @ [dquote] @ ''moo cow bark dog'' @ [dquote, newline] @
                              ''Output: '' @ [dquote] @ ''god krab woc oom'' @ [dquote])\<rparr>,
             \<lparr>paragraphType = TextParagraph,
              content = Some ''However, the expected output is:''\<rparr>,
             \<lparr>paragraphType = CodeParagraph,
              content = Some ([dquote] @ ''oom woc krab god'' @ [dquote])\<rparr>,
             \<lparr>paragraphType = TextParagraph, content = Some ''Could you fix this?''\<rparr>],
          answerIsCorrect = False, hintIndex = None\<rparr> \<and>
   getFeedbackWithoutReinforcement numberToString 3 None laterBugTasks
     (laterBugResult ''god krab woc oom'' ''linear'') [] \<noteq>
     getBuggyOutputTestFeedback None reverseStringTest
       (laterBugResult ''god krab woc oom'' ''linear'') \<and>
   getFeedbackWithoutReinforcement numberToString 3 None laterBugTasks
     (laterBugResult ''god krab woc oom'' ''linear'') [] \<noteq>
     getBuggyOutputTestFeedback None forgetLastWordTest
       (laterBugResult ''god krab woc oom'' ''linear'') \<and>
   \<not> truthy (errorString (laterBugResult ''oom woc krab god'' ''quadratic'')) \<and>
   resultAt (buggyOutputTestResults (laterBugResult ''oom woc krab god'' ''quadratic'')) 1 0 =
     Some True \<and>
   getFeedbackWithoutReinforcement numberToString 3 None laterBugTasks
     (laterBugResult ''oom woc krab god'' ''quadratic'') [] =
     Inr \<lparr>paragraphs =
            [\<lparr>paragraphType = TextParagraph,
              content = Some (''Your code is running more slowly than expected. Can you '' @
                              ''reconfigure it such that it runs in linear time?'')\<rparr>],
          answerIsCorrect = False, hintIndex = None\<rparr> \<and>
   getFeedbackWithoutReinforcement numberToString 3 None laterBugTasks
     (laterBugResult ''oom woc krab god'' ''quadratic'') [] \<noteq>
     getBuggyOutputTestFeedback None reverseStringTest
       (laterBugResult ''oom woc krab god'' ''quadratic'') \<and>
   getFeedbackWithoutReinforcement numberToString 3 None laterBugTasks
     (laterBugResult ''oom woc krab god'' ''quadratic'') [] \<noteq>
     getBuggyOutputTestFeedback None forgetLastWordTest
       (laterBugResult ''oom woc krab god'' ''quadratic'')"
proof -
  let ?r = "laterBugResult ''god krab woc oom'' ''linear''"
  let ?q = "laterBugResult ''oom woc krab god'' ''quadratic''"
  have e: "\<not> truthy (errorString (laterBugResult a b))" for a b
    by (simp add: laterBugResult_def truthy_def)
  have b: "resultAt (buggyOutputTestResults (laterBugResult a p)) 1 0 = Some True" for a p
    by (simp add: laterBugResult_def resultAt_def at_def)
  have g: "getFeedbackWithoutReinforcement numberToString 3 None laterBugTasks ?r [] =
     Inr \<lparr>paragraphs =
            [\<lparr>paragraphType = TextParagraph,
              content = Some ''Your code produced the following result:''\<rparr>,
             \<lparr>paragraphType = CodeParagraph,
              content = Some (''Input: '' @ [dquote] @ ''moo cow bark dog'' @ [dquote, newline] @
                              ''Output: '' @ [dquote] @ ''god krab woc oom'' @ [dquote])\<rparr>,
             \<lparr>paragraphType = TextParagraph,
              content = Some ''However, the expected output is:''\<rparr>,
             \<lparr>paragraphType = CodeParagraph,
              content = Some ([dquote] @ ''oom woc krab god'' @ [dquote])\<rparr>,
             \<lparr>paragraphType = TextParagraph, content = Some ''Could you fix this?''\<rparr>],
          answerIsCorrect = False, hintIndex = None\<rparr>"
    by (simp add: getFeedbackWithoutReinforcement_def truthy_def laterBugTasks_def
          laterBugResult_def at_def forgetLastWordTest_def matchesOutput_def
          getCorrectnessTestFeedback_def getAnyAllowedOutput_def
          appendTextParagraph_def appendCodeParagraph_def createFeedback_def replaceAll_def
          tab_def newline_def)
  have q: "getFeedbackWithoutReinforcement numberToString 3 None laterBugTasks ?q [] =
     Inr \<lparr>paragraphs =
            [\<lparr>paragraphType = TextParagraph,
              content = Some (''Your code is running more slowly than expected. Can you '' @
                              ''reconfigure it such that it runs in linear time?'')\<rparr>],
          answerIsCorrect = False, hintIndex = None\<rparr>"
    by (simp add: getFeedbackWithoutReinforcement_def truthy_def laterBugTasks_def
          laterBugResult_def at_def forgetLastWordTest_def matchesOutput_def
          getPerformanceTestFeedback_def appendTextParagraph_def createFeedback_def)
  have h: "getBuggyOutputTestFeedback None t (laterBugResult a p) =
             Inr (setHintIndex 0 (appendTextParagraph (at (messages t) 0) (createFeedback False)))"
    for t a p
    by (simp add: getBuggyOutputTestFeedback_def)
  have d: "getFeedbackWithoutReinforcement numberToString 3 None laterBugTasks ?r [] \<noteq>
             getBuggyOutputTestFeedback None t ?r" for t
    unfolding g h by (simp add: setHintIndex_def appendTextParagraph_def createFeedback_def)
  have d': "getFeedbackWithoutReinforcement numberToString 3 None laterBugTasks ?q [] \<noteq>
             getBuggyOutputTestFeedback None t ?q" for t
    unfolding q h by (simp add: setHintIndex_def appendTextParagraph_def createFeedback_def)
  from e b g q d [of reverseStringTest] d [of forgetLastWordTest]
    d' [of reverseStringTest] d' [of forgetLastWordTest]
  show ?thesis by (simp only: simp_thms)
qed

end
